theory Spec2Isabelle
  imports Complex_Main "HOL-Library.Sublist"
begin

section \<open>Budget tracker (src/ai\_engine.py, class ResourceTracker)\<close>

text \<open>
  A \<open>datetime\<close> is modelled as an integer number of microseconds since a fixed epoch, and
  the difference of two readings as an integer number of microseconds.  Python normalises
  a \<open>timedelta\<close> to days, seconds (0 to 86399) and microseconds (0 to 999999); the
  attribute \<open>.seconds\<close> is the seconds component only, \<open>.total_seconds()\<close> is the whole
  duration.  Every call of \<open>datetime.now()\<close> in the source is an explicit argument of the
  model, in the order of the calls.  Python floats are idealised as reals.
\<close>

type_synonym datetime = int

definition seconds :: "int \<Rightarrow> int" where
  "seconds d = (d div 1000000) mod 86400"

definition total_seconds :: "int \<Rightarrow> real" where
  "total_seconds d = real_of_int d / 1000000"

text \<open>
  Formatted strings: an f-string is kept as the list of its literal pieces and of the
  numbers it formats, in order.
\<close>

datatype frag = S string | I int | F real | T datetime

type_synonym fstring = "frag list"

datatype py_exception =
    Exception fstring
  | IndexError fstring
  | KeyError fstring
  | JSONDecodeError fstring
  | ValueError fstring
  | RecursionError fstring

fun str_exc :: "py_exception \<Rightarrow> fstring" where
  "str_exc (Exception m) = m"
| "str_exc (IndexError m) = m"
| "str_exc (KeyError m) = m"
| "str_exc (JSONDecodeError m) = m"
| "str_exc (ValueError m) = m"
| "str_exc (RecursionError m) = m"

record ResourceTracker =
  max_tokens_per_request :: int
  max_requests_per_minute :: int
  max_cost_per_hour :: real
  max_tokens_per_hour :: int
  minute_requests :: "datetime list"
  hour_tokens :: int
  hour_cost :: real
  hour_start :: datetime
  total_requests :: int
  total_tokens :: int
  total_cost :: real

definition reset_if_needed :: "datetime \<Rightarrow> ResourceTracker \<Rightarrow> ResourceTracker" where
  "reset_if_needed now tr =
     (let tr1 = tr\<lparr>minute_requests := filter (\<lambda>t. seconds (now - t) < 60) (minute_requests tr)\<rparr>
      in if seconds (now - hour_start tr1) \<ge> 3600
         then tr1\<lparr>hour_tokens := 0, hour_cost := 0, hour_start := now\<rparr>
         else tr1)"

definition check_limits ::
  "datetime \<Rightarrow> datetime \<Rightarrow> int \<Rightarrow> ResourceTracker \<Rightarrow>
     (py_exception + bool \<times> fstring) \<times> ResourceTracker" where
  "check_limits now now' estimated_tokens tr =
     (let tr1 = reset_if_needed now tr in
      if int (length (minute_requests tr1)) \<ge> max_requests_per_minute tr1 then
        (case minute_requests tr1 of
           [] \<Rightarrow> (Inl (IndexError [S ''list index out of range'']), tr1)
         | t0 # _ \<Rightarrow>
             (Inr (False, [S ''Rate limit reached. Wait '', I (60 - seconds (now' - t0)), S ''s'']), tr1))
      else if hour_tokens tr1 + estimated_tokens > max_tokens_per_hour tr1 then
        (Inr (False, [S ''Token limit reached ('', I (max_tokens_per_hour tr1), S ''/hour)'']), tr1)
      else
        (let estimated_cost = (real_of_int estimated_tokens / 1000) * (3 / 100) in
         if hour_cost tr1 + estimated_cost > max_cost_per_hour tr1 then
           (Inr (False, [S ''Cost limit reached ($'', F (max_cost_per_hour tr1), S ''/hour)'']), tr1)
         else (Inr (True, [S ''OK'']), tr1)))"

definition record_usage :: "datetime \<Rightarrow> int \<Rightarrow> real \<Rightarrow> ResourceTracker \<Rightarrow> ResourceTracker" where
  "record_usage now tokens cost tr =
     tr\<lparr>minute_requests := minute_requests tr @ [now],
        hour_tokens := hour_tokens tr + tokens,
        hour_cost := hour_cost tr + cost,
        total_requests := total_requests tr + 1,
        total_tokens := total_tokens tr + tokens,
        total_cost := total_cost tr + cost\<rparr>"


text \<open>
  The constructor with the four limits read from the environment; the defaults of the
  source are 2000, 10, 5.0 and 100000.
\<close>

definition ResourceTracker_init :: "int \<Rightarrow> int \<Rightarrow> real \<Rightarrow> int \<Rightarrow> datetime \<Rightarrow> ResourceTracker" where
  "ResourceTracker_init mtr mrm mch mth now =
     \<lparr>max_tokens_per_request = mtr, max_requests_per_minute = mrm,
      max_cost_per_hour = mch, max_tokens_per_hour = mth,
      minute_requests = [], hour_tokens = 0, hour_cost = 0, hour_start = now,
      total_requests = 0, total_tokens = 0, total_cost = 0\<rparr>"

definition default_tracker :: "datetime \<Rightarrow> ResourceTracker" where
  "default_tracker now = ResourceTracker_init 2000 10 5 100000 now"

subsection \<open>Sequences of tracker calls\<close>

type_synonym limit_result = "py_exception + bool \<times> fstring"

definition admitted :: "limit_result \<Rightarrow> bool" where
  "admitted r = (case r of Inr (ok, _) \<Rightarrow> ok | Inl _ \<Rightarrow> False)"

definition rate_limited :: "limit_result \<Rightarrow> bool" where
  "rate_limited r =
     (case r of
        Inr (ok, S m # _) \<Rightarrow> \<not> ok \<and> m = ''Rate limit reached. Wait ''
      | _ \<Rightarrow> False)"

text \<open>A sequence of \<open>check_limits\<close> calls alone, each with its two clock readings.\<close>

fun check_run :: "ResourceTracker \<Rightarrow> (datetime \<times> datetime \<times> int) list \<Rightarrow> limit_result list" where
  "check_run tr [] = []"
| "check_run tr ((now, now', est) # cs) =
     (case check_limits now now' est tr of (r, tr1) \<Rightarrow> r # check_run tr1 cs)"

text \<open>
  A sequence of requests in the order the engine makes the calls: \<open>check_limits\<close>, and
  when it admits, \<open>record_usage\<close> with the usage of the completed request.
\<close>

fun admit_record_run ::
  "ResourceTracker \<Rightarrow> (datetime \<times> datetime \<times> int \<times> datetime \<times> int \<times> real) list \<Rightarrow> limit_result list" where
  "admit_record_run tr [] = []"
| "admit_record_run tr ((now, now', est, t_rec, tokens, cost) # evs) =
     (case check_limits now now' est tr of
        (r, tr1) \<Rightarrow>
          r # admit_record_run (if admitted r then record_usage t_rec tokens cost tr1 else tr1) evs)"

fun clock_readings :: "(datetime \<times> datetime \<times> int \<times> datetime \<times> int \<times> real) list \<Rightarrow> datetime list" where
  "clock_readings [] = []"
| "clock_readings ((now, now', est, t_rec, tokens, cost) # evs) = now # t_rec # clock_readings evs"

definition in_window :: "datetime \<Rightarrow> datetime \<Rightarrow> ResourceTracker \<Rightarrow> nat" where
  "in_window t0 t tr = length (filter (\<lambda>x. t0 \<le> x \<and> x \<le> t) (minute_requests tr))"

section \<open>Request engine (src/ai\_engine.py, class AIEngine)\<close>

text \<open>
  Python values that cross the engine and dispatcher boundaries: dictionaries are
  association lists in insertion order, strings are formatted strings.
\<close>

datatype pyval =
    PNone
  | PBool bool
  | PInt int
  | PFloat real
  | PStr fstring
  | PList "pyval list"
  | PDict "(string \<times> pyval) list"

datatype AIProvider = OPENAI | ANTHROPIC

fun provider_value :: "AIProvider \<Rightarrow> string" where
  "provider_value OPENAI = ''openai''"
| "provider_value ANTHROPIC = ''anthropic''"

record AIResponse =
  content :: string
  model :: string
  tokens_used :: int
  cost_usd :: real
  provider :: string
  success :: bool
  error :: "fstring option"

text \<open>
  The provider SDKs are outside the repository.  A client is the function that issues
  one call: it takes the keyword arguments of the call and the state of the outside
  world, and returns either the exception it raised or the reply, with the new state of
  the world.  Of a reply the model keeps what the engine reads: the usage counts and the
  texts of the choices (OpenAI) or of the content blocks (Anthropic).
\<close>

record CompletionUsage =
  usage_prompt_tokens :: int
  usage_completion_tokens :: int
  usage_total_tokens :: int

record ChatCompletion =
  usage :: CompletionUsage
  choices :: "string list"

record ChatRequest =
  chat_model :: string
  chat_messages :: "(string \<times> string) list"
  chat_max_tokens :: int
  chat_temperature :: real

record MessageUsage =
  input_tokens :: int
  output_tokens :: int

record AnthropicMessage =
  message_usage :: MessageUsage
  message_content :: "string list"

record MessagesRequest =
  messages_model :: string
  messages_system :: string
  messages_messages :: "(string \<times> string) list"
  messages_max_tokens :: int
  messages_temperature :: real

type_synonym 'w openai_client = "ChatRequest \<Rightarrow> 'w \<Rightarrow> (py_exception + ChatCompletion) \<times> 'w"

type_synonym 'w anthropic_client = "MessagesRequest \<Rightarrow> 'w \<Rightarrow> (py_exception + AnthropicMessage) \<times> 'w"

record 'w AIEngine =
  self_provider :: AIProvider
  self_model :: string
  openai_client :: "'w openai_client option"
  anthropic_client :: "'w anthropic_client option"
  tracker :: ResourceTracker

text \<open>Truthiness of an optional string: \<open>None\<close> and the empty string are false.\<close>

fun truthy :: "string option \<Rightarrow> bool" where
  "truthy None = False"
| "truthy (Some s) = (s \<noteq> [])"

definition failure_response :: "'w AIEngine \<Rightarrow> fstring \<Rightarrow> AIResponse" where
  "failure_response self err =
     \<lparr>content = [], model = self_model self, tokens_used = 0, cost_usd = 0,
      provider = provider_value (self_provider self), success = False, error = Some err\<rparr>"

definition openai_request :: "'w AIEngine \<Rightarrow> string \<Rightarrow> string option \<Rightarrow> int \<Rightarrow> ChatRequest" where
  "openai_request self prompt system_prompt max_tokens =
     \<lparr>chat_model = self_model self,
      chat_messages =
        (if truthy system_prompt then [(''system'', the system_prompt)] else [])
          @ [(''user'', prompt)],
      chat_max_tokens = max_tokens,
      chat_temperature = 7 / 10\<rparr>"

definition openai_generate ::
  "datetime \<Rightarrow> string \<Rightarrow> string option \<Rightarrow> int \<Rightarrow> 'w AIEngine \<times> 'w \<Rightarrow>
     (py_exception + AIResponse) \<times> 'w AIEngine \<times> 'w" where
  "openai_generate now prompt system_prompt max_tokens sw =
     (case sw of (self, w) \<Rightarrow>
      (case openai_client self of
         None \<Rightarrow> (Inl (Exception [S ''OpenAI client not initialized'']), self, w)
       | Some client \<Rightarrow>
           (case client (openai_request self prompt system_prompt max_tokens) w of
              (Inl e, w1) \<Rightarrow> (Inl e, self, w1)
            | (Inr response, w1) \<Rightarrow>
                (let tokens_used = usage_total_tokens (usage response);
                     input_cost = (real_of_int (usage_prompt_tokens (usage response)) / 1000) * (15 / 100000);
                     output_cost = (real_of_int (usage_completion_tokens (usage response)) / 1000) * (6 / 10000);
                     total_cost = input_cost + output_cost;
                     self1 = self\<lparr>tracker := record_usage now tokens_used total_cost (tracker self)\<rparr>
                 in case choices response of
                      [] \<Rightarrow> (Inl (IndexError [S ''list index out of range'']), self1, w1)
                    | c # _ \<Rightarrow>
                        (Inr \<lparr>content = c, model = self_model self, tokens_used = tokens_used,
                              cost_usd = total_cost, provider = ''openai'', success = True,
                              error = None\<rparr>, self1, w1)))))"

definition anthropic_request :: "'w AIEngine \<Rightarrow> string \<Rightarrow> string option \<Rightarrow> int \<Rightarrow> MessagesRequest" where
  "anthropic_request self prompt system_prompt max_tokens =
     \<lparr>messages_model = self_model self,
      messages_system = (if truthy system_prompt then the system_prompt else []),
      messages_messages = [(''user'', prompt)],
      messages_max_tokens = max_tokens,
      messages_temperature = 7 / 10\<rparr>"

definition anthropic_generate ::
  "datetime \<Rightarrow> string \<Rightarrow> string option \<Rightarrow> int \<Rightarrow> 'w AIEngine \<times> 'w \<Rightarrow>
     (py_exception + AIResponse) \<times> 'w AIEngine \<times> 'w" where
  "anthropic_generate now prompt system_prompt max_tokens sw =
     (case sw of (self, w) \<Rightarrow>
      (case anthropic_client self of
         None \<Rightarrow> (Inl (Exception [S ''Anthropic client not initialized'']), self, w)
       | Some client \<Rightarrow>
           (case client (anthropic_request self prompt system_prompt max_tokens) w of
              (Inl e, w1) \<Rightarrow> (Inl e, self, w1)
            | (Inr response, w1) \<Rightarrow>
                (let tokens_used = input_tokens (message_usage response)
                                     + output_tokens (message_usage response);
                     input_cost = (real_of_int (input_tokens (message_usage response)) / 1000) * (3 / 1000);
                     output_cost = (real_of_int (output_tokens (message_usage response)) / 1000) * (15 / 1000);
                     total_cost = input_cost + output_cost;
                     self1 = self\<lparr>tracker := record_usage now tokens_used total_cost (tracker self)\<rparr>
                 in case message_content response of
                      [] \<Rightarrow> (Inl (IndexError [S ''list index out of range'']), self1, w1)
                    | c # _ \<Rightarrow>
                        (Inr \<lparr>content = c, model = self_model self, tokens_used = tokens_used,
                              cost_usd = total_cost, provider = ''anthropic'', success = True,
                              error = None\<rparr>, self1, w1)))))"

text \<open>
  \<open>generate\<close> reads the clock three times: twice in \<open>check_limits\<close> and once in
  \<open>record_usage\<close>.  An exception of \<open>check_limits\<close> is raised outside the \<open>try\<close> block and
  leaves the method; every exception of the provider path is caught.
\<close>

definition requested_tokens :: "int option \<Rightarrow> 'w AIEngine \<Rightarrow> int" where
  "requested_tokens max_tokens_arg self =
     (case max_tokens_arg of
        None \<Rightarrow> max_tokens_per_request (tracker self)
      | Some m \<Rightarrow> m)"

definition generate ::
  "datetime \<Rightarrow> datetime \<Rightarrow> datetime \<Rightarrow> string \<Rightarrow> string option \<Rightarrow> int option \<Rightarrow>
     'w AIEngine \<times> 'w \<Rightarrow> (py_exception + AIResponse) \<times> 'w AIEngine \<times> 'w" where
  "generate now now' now'' prompt system_prompt max_tokens_arg sw =
     (case sw of (self, w) \<Rightarrow>
      (let max_tokens = requested_tokens max_tokens_arg self
       in case check_limits now now' max_tokens (tracker self) of
            (Inl e, tr1) \<Rightarrow> (Inl e, self\<lparr>tracker := tr1\<rparr>, w)
          | (Inr (can_proceed, message), tr1) \<Rightarrow>
              (let self1 = self\<lparr>tracker := tr1\<rparr> in
               if \<not> can_proceed
               then (Inr (failure_response self1 (S ''Resource limit: '' # message)), self1, w)
               else
                 (case (if self_provider self1 = OPENAI
                        then openai_generate now'' prompt system_prompt max_tokens (self1, w)
                        else anthropic_generate now'' prompt system_prompt max_tokens (self1, w)) of
                    (Inl e, self2, w2) \<Rightarrow> (Inr (failure_response self2 (str_exc e)), self2, w2)
                  | (Inr r, self2, w2) \<Rightarrow> (Inr r, self2, w2)))))"

subsection \<open>Structured output\<close>

text \<open>
  Characters stand for code points below 256.  \<open>isspace\<close> is Python's \<open>str.isspace\<close>
  on them; \<open>strip\<close>, \<open>contains\<close> and \<open>split\<close> are \<open>str.strip()\<close>, the operator \<open>in\<close>
  and \<open>str.split(sep)\<close> for a non-empty separator.
\<close>

definition isspace :: "char \<Rightarrow> bool" where
  "isspace c = (c \<in> set [CHR 0x09, CHR 0x0A, CHR 0x0B, CHR 0x0C, CHR 0x0D,
                           CHR 0x1C, CHR 0x1D, CHR 0x1E, CHR 0x1F, CHR 0x20,
                           CHR 0x85, CHR 0xA0])"

definition strip :: "string \<Rightarrow> string" where
  "strip s = rev (dropWhile isspace (rev (dropWhile isspace s)))"

fun contains :: "string \<Rightarrow> string \<Rightarrow> bool" where
  "contains sub [] = (sub = [])"
| "contains sub (c # cs) = (prefix sub (c # cs) \<or> contains sub cs)"

function split :: "string \<Rightarrow> string \<Rightarrow> string list" where
  "split sep [] = [[]]"
| "split sep (c # cs) =
     (if sep \<noteq> [] \<and> prefix sep (c # cs)
      then [] # split sep (drop (length sep) (c # cs))
      else (case split sep cs of
              [] \<Rightarrow> [[c]]
            | p # ps \<Rightarrow> (c # p) # ps))"
  by pat_completeness auto
termination
proof (relation "measure (\<lambda>(sep, s). length s)")
  show "wf (measure (\<lambda>(sep, s). length s))" by simp
next
  fix sep :: string and c :: char and cs :: string
  assume "sep \<noteq> [] \<and> prefix sep (c # cs)"
  then obtain a sep' where "sep = a # sep'" by (cases sep) auto
  then show "((sep, drop (length sep) (c # cs)), (sep, c # cs)) \<in> measure (\<lambda>(sep, s). length s)"
    by simp
next
  fix sep :: string and c :: char and cs :: string
  show "((sep, cs), (sep, c # cs)) \<in> measure (\<lambda>(sep, s). length s)" by simp
qed

definition fence :: string where
  "fence = [CHR 0x60, CHR 0x60, CHR 0x60]"

definition json_fence :: string where
  "json_fence = fence @ ''json''"

text \<open>
  The body of the \<open>try\<close> statement of \<open>generate_json\<close>: \<open>json_text\<close> is the
  argument it hands to \<open>json.loads\<close>.  The indexing is in range: a text that contains
  the separator splits into at least two pieces.

  \<open>json.loads\<close> is a parameter: it returns the decoded value or the exception it
  raises.  For a text that is not JSON that is \<open>JSONDecodeError\<close>, which the \<open>except\<close>
  clause turns into a dictionary; the library also raises \<open>ValueError\<close> (an integer
  literal beyond the interpreter's digit limit) and \<open>RecursionError\<close> (nesting beyond
  the stack), and any exception other than \<open>JSONDecodeError\<close> leaves \<open>generate_json\<close>.
\<close>

definition json_text :: "string \<Rightarrow> string" where
  "json_text response_content =
     (let content0 = strip response_content;
          content1 =
            (if contains json_fence content0
             then hd (split fence (split json_fence content0 ! 1))
             else if contains fence content0
             then hd (split fence (split fence content0 ! 1))
             else content0)
      in strip content1)"

definition parse_json_content ::
  "(string \<Rightarrow> py_exception + pyval) \<Rightarrow> string \<Rightarrow> py_exception + pyval" where
  "parse_json_content loads response_content =
     (case loads (json_text response_content) of
        Inr v \<Rightarrow> Inr v
      | Inl exc \<Rightarrow>
          (case exc of
             JSONDecodeError e \<Rightarrow>
               Inr (PDict [(''error'', PStr (S ''Invalid JSON: '' # e)),
                           (''raw'', PStr [S response_content])])
           | _ \<Rightarrow> Inl exc))"

definition json_prompt :: "(pyval \<Rightarrow> string) \<Rightarrow> string \<Rightarrow> pyval \<Rightarrow> string" where
  "json_prompt dumps prompt schema =
     prompt @ [CHR 0x0A, CHR 0x0A] @ ''Respond with valid JSON matching this schema:''
       @ [CHR 0x0A] @ dumps schema @ [CHR 0x0A, CHR 0x0A] @ ''JSON Response:''"

fun optional_str :: "fstring option \<Rightarrow> pyval" where
  "optional_str None = PNone"
| "optional_str (Some s) = PStr s"

definition generate_json ::
  "(string \<Rightarrow> py_exception + pyval) \<Rightarrow> (pyval \<Rightarrow> string) \<Rightarrow>
   datetime \<Rightarrow> datetime \<Rightarrow> datetime \<Rightarrow> string \<Rightarrow> pyval \<Rightarrow> string option \<Rightarrow>
     'w AIEngine \<times> 'w \<Rightarrow> (py_exception + pyval) \<times> 'w AIEngine \<times> 'w" where
  "generate_json loads dumps now now' now'' prompt schema system_prompt sw =
     (case generate now now' now'' (json_prompt dumps prompt schema) system_prompt None sw of
        (Inl e, sw1) \<Rightarrow> (Inl e, sw1)
      | (Inr response, sw1) \<Rightarrow>
          if \<not> success response
          then (Inr (PDict [(''error'', optional_str (error response))]), sw1)
          else (parse_json_content loads (content response), sw1))"

text \<open>
  The wording of the specification, for comparison with \<open>parse_json_content\<close>: the text
  before and after the first occurrence of a marker, and the contents of the first
  fenced block of a text (what follows its first fence, without a \<open>json\<close> tag, up to
  the next fence).
\<close>

fun before_first :: "string \<Rightarrow> string \<Rightarrow> string" where
  "before_first sep [] = []"
| "before_first sep (c # cs) = (if prefix sep (c # cs) then [] else c # before_first sep cs)"

fun after_first :: "string \<Rightarrow> string \<Rightarrow> string" where
  "after_first sep [] = []"
| "after_first sep (c # cs) =
     (if prefix sep (c # cs) then drop (length sep) (c # cs) else after_first sep cs)"

definition spec_first_fenced_block :: "string \<Rightarrow> string" where
  "spec_first_fenced_block s =
     (let body = after_first fence s
      in before_first fence (if prefix ''json'' body then drop 4 body else body))"

subsection \<open>Example engines\<close>

text \<open>
  Engines as the constructor builds them for each provider with its default model,
  around a given client and tracker, and clients that always reply with the given text
  and a usage of 10 + 5 tokens, counting their calls in the world.
\<close>

definition openai_engine :: "'w openai_client option \<Rightarrow> ResourceTracker \<Rightarrow> 'w AIEngine" where
  "openai_engine client tr =
     \<lparr>self_provider = OPENAI, self_model = ''gpt-4o-mini'', openai_client = client,
      anthropic_client = None, tracker = tr\<rparr>"

definition replying_client :: "string \<Rightarrow> nat openai_client" where
  "replying_client text req w =
     (Inr \<lparr>usage = \<lparr>usage_prompt_tokens = 10, usage_completion_tokens = 5, usage_total_tokens = 15\<rparr>,
           choices = [text]\<rparr>, Suc w)"

definition anthropic_engine :: "'w anthropic_client option \<Rightarrow> ResourceTracker \<Rightarrow> 'w AIEngine" where
  "anthropic_engine client tr =
     \<lparr>self_provider = ANTHROPIC, self_model = ''claude-3-5-sonnet-20241022'',
      openai_client = None, anthropic_client = client, tracker = tr\<rparr>"

definition replying_anthropic_client :: "string \<Rightarrow> nat anthropic_client" where
  "replying_anthropic_client text req w =
     (Inr \<lparr>message_usage = \<lparr>input_tokens = 10, output_tokens = 5\<rparr>,
           message_content = [text]\<rparr>, Suc w)"

section \<open>Worker contract (src/agent\_base.py) and dispatcher (src/orchestration/queen\_bee.py)\<close>

datatype AgentRole = QUEEN | SHOPPER_BEE | AD_BEE

datatype MessageType = TASK | RESULT | QUERY

datatype AgentState = IDLE | THINKING | WORKING

text \<open>
  The identifier and the timestamp of a message come from \<open>uuid.uuid4\<close> and
  \<open>datetime.now\<close>; where the dispatcher builds a message they are arguments of the model.
\<close>

record HiveMessage =
  msg_id :: string
  sender :: string
  receiver :: string
  msg_content :: pyval
  msg_type :: MessageType
  timestamp :: string

text \<open>
  The only value the repository assigns to \<open>on_message_send\<close> is the bound method
  \<open>route_message\<close> of the dispatcher (in \<open>register_bee\<close>).
\<close>

datatype callback = Route_message

record HiveAgent =
  agent_id :: string
  role :: AgentRole
  description :: string
  state :: AgentState
  running :: bool
  tasks_completed :: int
  tasks_failed :: int
  messages_sent :: int
  messages_received :: int
  on_message_send :: "callback option"

definition HiveAgent_init :: "string \<Rightarrow> AgentRole \<Rightarrow> string \<Rightarrow> HiveAgent" where
  "HiveAgent_init aid r d =
     \<lparr>agent_id = aid, role = r, description = d, state = IDLE, running = False,
      tasks_completed = 0, tasks_failed = 0, messages_sent = 0, messages_received = 0,
      on_message_send = None\<rparr>"

text \<open>
  \<open>process_message\<close> is abstract in \<open>HiveAgent\<close>.  A handler reads the message, the
  fields of its worker and the outside world (the engine, the data sources), and
  returns the exception it raised or its optional response, the new values of
  \<open>tasks_completed\<close> and \<open>tasks_failed\<close>, and the new world: the handlers of the
  repository (\<open>ShopperBee\<close>, \<open>AdBee\<close>, \<open>EnhancedShopperBee\<close>, \<open>QueenBee\<close>) assign no other
  field of their worker.
\<close>

type_synonym 'w handler =
  "HiveMessage \<Rightarrow> HiveAgent \<Rightarrow> 'w \<Rightarrow> (py_exception + HiveMessage option) \<times> (int \<times> int) \<times> 'w"

record 'w worker =
  agent :: HiveAgent
  process_message :: "'w handler"

text \<open>
  The dispatcher: its own agent fields, the registry (a dictionary from identifier to
  the entry \<open>{"bee": bee, "role": role}\<close>, here a pair) and the two workflow counters.
  The registry is the store of the worker objects: each entry holds its own object.
\<close>

record 'w QueenBee =
  queen_agent :: HiveAgent
  worker_bees :: "(string \<times> 'w worker \<times> AgentRole) list"
  workflows_completed :: int
  workflows_failed :: int

type_synonym 'w hive = "'w QueenBee \<times> 'w"

type_synonym 'w outcome = "(py_exception + unit) \<times> 'w hive"

fun dict_set :: "(string \<times> 'v) list \<Rightarrow> string \<Rightarrow> 'v \<Rightarrow> (string \<times> 'v) list" where
  "dict_set [] k v = [(k, v)]"
| "dict_set ((k', v') # d) k v = (if k' = k then (k, v) # d else (k', v') # dict_set d k v)"

definition dict_get :: "(string \<times> pyval) list \<Rightarrow> string \<Rightarrow> pyval \<Rightarrow> pyval" where
  "dict_get d k dflt = (case map_of d k of None \<Rightarrow> dflt | Some v \<Rightarrow> v)"

fun modify_entry :: "string \<Rightarrow> ('v \<Rightarrow> 'v) \<Rightarrow> (string \<times> 'v) list \<Rightarrow> (string \<times> 'v) list" where
  "modify_entry k f [] = []"
| "modify_entry k f ((k', v) # d) = (if k' = k then (k', f v) # d else (k', v) # modify_entry k f d)"

definition get_agent :: "string \<Rightarrow> 'w hive \<Rightarrow> HiveAgent option" where
  "get_agent key h = map_option (\<lambda>(b, r). agent b) (map_of (worker_bees (fst h)) key)"

definition update_agent :: "string \<Rightarrow> (HiveAgent \<Rightarrow> HiveAgent) \<Rightarrow> 'w hive \<Rightarrow> 'w hive" where
  "update_agent key f h =
     (case h of (q, w) \<Rightarrow>
        (q\<lparr>worker_bees := modify_entry key (\<lambda>(b, r). (b\<lparr>agent := f (agent b)\<rparr>, r)) (worker_bees q)\<rparr>, w))"

definition register_bee :: "'w worker \<Rightarrow> 'w QueenBee \<Rightarrow> 'w QueenBee" where
  "register_bee bee q =
     q\<lparr>worker_bees :=
         dict_set (worker_bees q) (agent_id (agent bee))
           (bee\<lparr>agent := (agent bee)\<lparr>on_message_send := Some Route_message\<rparr>\<rparr>, role (agent bee))\<rparr>"

text \<open>
  \<open>send_message\<close> and \<open>receive_message\<close> of the worker stored under \<open>key\<close>.  The callback
  is interpreted by the argument \<open>route\<close>.  An exception (\<open>Inl e\<close>) leaves
  \<open>send_message\<close> before the counter is incremented and \<open>receive_message\<close> before the
  state is set back to idle.  \<open>run_handler\<close> is \<open>receive_message\<close> up to the return of
  \<open>process_message\<close>.
\<close>

definition send_message ::
  "(HiveMessage \<Rightarrow> 'w hive \<Rightarrow> 'w outcome) \<Rightarrow> string \<Rightarrow> HiveMessage \<Rightarrow> 'w hive \<Rightarrow> 'w outcome" where
  "send_message route key message h =
     (case get_agent key h of
        None \<Rightarrow> (Inl (KeyError [S key]), h)
      | Some self \<Rightarrow>
          (let message1 = message\<lparr>sender := agent_id self\<rparr> in
           case (case on_message_send self of
                   None \<Rightarrow> (Inr (), h)
                 | Some Route_message \<Rightarrow> route message1 h) of
             (Inl e, h1) \<Rightarrow> (Inl e, h1)
           | (Inr u, h1) \<Rightarrow>
               (Inr (), update_agent key (\<lambda>a. a\<lparr>messages_sent := messages_sent a + 1\<rparr>) h1)))"

definition run_handler ::
  "string \<Rightarrow> HiveMessage \<Rightarrow> 'w hive \<Rightarrow> (py_exception + HiveMessage option) \<times> 'w hive" where
  "run_handler key message h =
     (case map_of (worker_bees (fst h)) key of
        None \<Rightarrow> (Inl (KeyError [S key]), h)
      | Some (bee, r) \<Rightarrow>
          (let self1 = (agent bee)\<lparr>messages_received := messages_received (agent bee) + 1,
                                    state := THINKING\<rparr>
           in case process_message bee message self1 (snd h) of
                (res, (completed, failed), w1) \<Rightarrow>
                  (res,
                   update_agent key
                     (\<lambda>a. self1\<lparr>tasks_completed := completed, tasks_failed := failed\<rparr>)
                     (fst h, w1))))"

definition receive_message ::
  "(HiveMessage \<Rightarrow> 'w hive \<Rightarrow> 'w outcome) \<Rightarrow> string \<Rightarrow> HiveMessage \<Rightarrow> 'w hive \<Rightarrow> 'w outcome" where
  "receive_message route key message h =
     (case run_handler key message h of
        (Inl e, h1) \<Rightarrow> (Inl e, h1)
      | (Inr None, h1) \<Rightarrow> (Inr (), update_agent key (\<lambda>a. a\<lparr>state := IDLE\<rparr>) h1)
      | (Inr (Some response), h1) \<Rightarrow>
          (case send_message route key response h1 of
             (Inl e, h2) \<Rightarrow> (Inl e, h2)
           | (Inr u, h2) \<Rightarrow> (Inr (), update_agent key (\<lambda>a. a\<lparr>state := IDLE\<rparr>) h2)))"

text \<open>
  \<open>route_message\<close> of the dispatcher: a message for an unregistered receiver is
  dropped, any other is delivered through \<open>receive_message\<close>, whose response comes back
  through \<open>route_message\<close>, nested in the first call.  The first argument is the number
  of nested deliveries the interpreter's stack still allows: a delivery beyond it
  raises \<open>RecursionError\<close>, which propagates like every exception.  So a chain of
  deliveries that would not end does end, with that exception.
\<close>

primrec route_message :: "nat \<Rightarrow> HiveMessage \<Rightarrow> 'w hive \<Rightarrow> 'w outcome" where
  "route_message 0 message h =
     (if map_of (worker_bees (fst h)) (receiver message) \<noteq> None
      then (Inl (RecursionError [S ''maximum recursion depth exceeded'']), h)
      else (Inr (), h))"
| "route_message (Suc n) message h =
     (if map_of (worker_bees (fst h)) (receiver message) \<noteq> None
      then receive_message (route_message n) (receiver message) message h
      else (Inr (), h))"

definition find_bee_by_role :: "AgentRole \<Rightarrow> 'w QueenBee \<Rightarrow> string option" where
  "find_bee_by_role r q =
     map_option fst (find (\<lambda>(bee_id, bee, bee_role). bee_role = r) (worker_bees q))"

definition failed_result :: "string \<Rightarrow> (string \<times> pyval) list" where
  "failed_result err = [(''success'', PBool False), (''error'', PStr [S err])]"

definition shopper_task :: "string \<times> string \<Rightarrow> string \<Rightarrow> string \<Rightarrow> pyval \<Rightarrow> HiveMessage" where
  "shopper_task stamp queen_id shopper_bee_id user_id =
     \<lparr>msg_id = fst stamp, sender = queen_id, receiver = shopper_bee_id,
      msg_content = PDict [(''type'', PStr [S ''analyze_user'']), (''user_id'', user_id)],
      msg_type = TASK, timestamp = snd stamp\<rparr>"

definition ad_task :: "string \<times> string \<Rightarrow> string \<Rightarrow> string \<Rightarrow> pyval \<Rightarrow> HiveMessage" where
  "ad_task stamp queen_id ad_bee_id products =
     \<lparr>msg_id = fst stamp, sender = queen_id, receiver = ad_bee_id,
      msg_content =
        PDict [(''type'', PStr [S ''create_campaign'']),
               (''shopper_analysis'',
                PDict [(''ai_segment'', PDict [(''segment'', PStr [S ''tech_enthusiast''])]),
                       (''ai_interests'',
                        PList [PStr [S ''Electronics''], PStr [S ''Gadgets''], PStr [S ''Tech'']]),
                       (''recommended_products'', products)])],
      msg_type = TASK, timestamp = snd stamp\<rparr>"

text \<open>
  \<open>_full_campaign_workflow\<close>.  The two waits of half a second are not modelled: one
  flow runs at a time.  A bee identifier is tested for truth, so the empty identifier
  counts as no bee.
\<close>

definition full_campaign_workflow ::
  "nat \<Rightarrow> string \<times> string \<Rightarrow> string \<times> string \<Rightarrow> (string \<times> pyval) list \<Rightarrow> 'w hive \<Rightarrow>
     (py_exception + (string \<times> pyval) list) \<times> 'w hive" where
  "full_campaign_workflow depth stamp1 stamp2 data h =
     (let user_id = dict_get data ''user_id'' PNone;
          shopper_bee_id = find_bee_by_role SHOPPER_BEE (fst h)
      in if \<not> truthy shopper_bee_id
         then (Inr (failed_result ''Shopper bee not found''), h)
         else
          (case route_message depth
                  (shopper_task stamp1 (agent_id (queen_agent (fst h))) (the shopper_bee_id) user_id) h of
             (Inl e, h1) \<Rightarrow> (Inl e, h1)
           | (Inr u, h1) \<Rightarrow>
               (case get_agent (the shopper_bee_id) h1 of
                  None \<Rightarrow> (Inl (KeyError [S (the shopper_bee_id)]), h1)
                | Some shopper_bee \<Rightarrow>
                    if tasks_completed shopper_bee = 0
                    then (Inr (failed_result ''Shopper analysis failed''), h1)
                    else
                     (let ad_bee_id = find_bee_by_role AD_BEE (fst h1)
                      in if \<not> truthy ad_bee_id
                         then (Inr (failed_result ''Ad bee not found''), h1)
                         else
                          (case route_message depth
                                  (ad_task stamp2 (agent_id (queen_agent (fst h1))) (the ad_bee_id)
                                     (dict_get data ''products'' (PList []))) h1 of
                             (Inl e, h2) \<Rightarrow> (Inl e, h2)
                           | (Inr u, h2) \<Rightarrow>
                               (case get_agent (the ad_bee_id) h2 of
                                  None \<Rightarrow> (Inl (KeyError [S (the ad_bee_id)]), h2)
                                | Some ad_bee \<Rightarrow>
                                    if tasks_completed ad_bee = 0
                                    then (Inr (failed_result ''Campaign creation failed''), h2)
                                    else (Inr [(''success'', PBool True),
                                               (''message'', PStr [S ''Complete workflow executed'']),
                                               (''bees_involved'',
                                                PList [PStr [S (the shopper_bee_id)],
                                                       PStr [S (the ad_bee_id)]])],
                                          h2)))))))"

text \<open>The dispatch on the workflow type, the first statement of the \<open>try\<close> block.\<close>

definition run_workflow ::
  "nat \<Rightarrow> string \<times> string \<Rightarrow> string \<times> string \<Rightarrow> string \<Rightarrow> (string \<times> pyval) list \<Rightarrow> 'w hive \<Rightarrow>
     (py_exception + (string \<times> pyval) list) \<times> 'w hive" where
  "run_workflow depth stamp1 stamp2 workflow_type data h =
     (if workflow_type = ''full_ad_campaign''
      then full_campaign_workflow depth stamp1 stamp2 data h
      else (Inr (failed_result ''Unknown workflow''), h))"

text \<open>Truthiness of a Python value.\<close>

fun frag_nonempty :: "frag \<Rightarrow> bool" where
  "frag_nonempty (S s) = (s \<noteq> [])"
| "frag_nonempty f = True"

fun py_bool :: "pyval \<Rightarrow> bool" where
  "py_bool PNone = False"
| "py_bool (PBool b) = b"
| "py_bool (PInt i) = (i \<noteq> 0)"
| "py_bool (PFloat x) = (x \<noteq> 0)"
| "py_bool (PStr s) = list_ex frag_nonempty s"
| "py_bool (PList xs) = (xs \<noteq> [])"
| "py_bool (PDict d) = (d \<noteq> [])"

text \<open>
  \<open>execute_workflow\<close> reads the clock three times: for the workflow identifier, for the
  start time and for the elapsed time.  It catches every exception of the workflow,
  so it always returns a result.
\<close>

definition execute_workflow ::
  "datetime \<Rightarrow> datetime \<Rightarrow> datetime \<Rightarrow> nat \<Rightarrow> string \<times> string \<Rightarrow> string \<times> string \<Rightarrow>
   string \<Rightarrow> (string \<times> pyval) list \<Rightarrow> 'w hive \<Rightarrow> (string \<times> pyval) list \<times> 'w hive" where
  "execute_workflow now_id start_time end_time depth stamp1 stamp2 workflow_type data h =
     (let workflow_id = [S ''workflow_'', T now_id] in
      case run_workflow depth stamp1 stamp2 workflow_type data h of
        (Inl e, (q1, w1)) \<Rightarrow>
          ([(''success'', PBool False), (''error'', PStr (str_exc e)),
            (''workflow_id'', PStr workflow_id)],
           (q1\<lparr>workflows_failed := workflows_failed q1 + 1\<rparr>, w1))
      | (Inr result, (q1, w1)) \<Rightarrow>
          (let execution_time = total_seconds (end_time - start_time);
               q2 = (if py_bool (dict_get result ''success'' PNone)
                     then q1\<lparr>workflows_completed := workflows_completed q1 + 1\<rparr>
                     else q1\<lparr>workflows_failed := workflows_failed q1 + 1\<rparr>)
           in (dict_set (dict_set result ''workflow_id'' (PStr workflow_id))
                 ''execution_time'' (PFloat execution_time),
               (q2, w1))))"

text \<open>
  What a delivery leaves alone: the dispatcher's own fields and counters, and the
  identifiers and roles of the registry.
\<close>

definition same_dispatcher :: "'w hive \<Rightarrow> 'w hive \<Rightarrow> bool" where
  "same_dispatcher h h' =
     (queen_agent (fst h') = queen_agent (fst h)
      \<and> workflows_completed (fst h') = workflows_completed (fst h)
      \<and> workflows_failed (fst h') = workflows_failed (fst h)
      \<and> map (\<lambda>(k, b, r). (k, r)) (worker_bees (fst h'))
          = map (\<lambda>(k, b, r). (k, r)) (worker_bees (fst h)))"

subsection \<open>Example hive\<close>

text \<open>
  Handlers in the manner of \<open>ShopperBee\<close> and \<open>AdBee\<close>: on a task of the given type they
  complete a task and answer the sender with a result; on anything else they return
  no response.  \<open>idle_handler\<close> never completes a task, \<open>raising_handler\<close> raises.
\<close>

definition task_type :: "HiveMessage \<Rightarrow> pyval" where
  "task_type message =
     (case msg_content message of PDict d \<Rightarrow> dict_get d ''type'' PNone | _ \<Rightarrow> PNone)"

definition completing_handler :: "string \<Rightarrow> unit handler" where
  "completing_handler ty message self w =
     (if msg_type message = TASK \<and> task_type message = PStr [S ty]
      then (Inr (Some \<lparr>msg_id = ''r'', sender = [], receiver = sender message,
                        msg_content = PDict [(''success'', PBool True)],
                        msg_type = RESULT, timestamp = ''t''\<rparr>),
            (tasks_completed self + 1, tasks_failed self), w)
      else (Inr None, (tasks_completed self, tasks_failed self), w))"

definition idle_handler :: "unit handler" where
  "idle_handler message self w = (Inr None, (tasks_completed self, tasks_failed self), w)"

definition raising_handler :: "unit handler" where
  "raising_handler message self w =
     (Inl (Exception [S ''division by zero'']), (tasks_completed self, tasks_failed self), w)"

definition example_queen :: "unit QueenBee" where
  "example_queen =
     \<lparr>queen_agent = HiveAgent_init ''queen_bee_001'' QUEEN ''Master orchestrator'',
      worker_bees = [], workflows_completed = 0, workflows_failed = 0\<rparr>"

definition example_bee :: "string \<Rightarrow> AgentRole \<Rightarrow> unit handler \<Rightarrow> unit worker" where
  "example_bee aid r handler = \<lparr>agent = HiveAgent_init aid r ''worker'', process_message = handler\<rparr>"

section \<open>Properties of the budget tracker\<close>

lemma reset_if_needed_totals:
  "total_requests (reset_if_needed now tr) = total_requests tr"
  by (simp add: reset_if_needed_def Let_def)

lemma seconds_small: "0 \<le> d \<Longrightarrow> d < 60000000 \<Longrightarrow> seconds d < 60"
proof -
  assume a: "0 \<le> d" "d < 60000000"
  have q0: "0 \<le> d div 1000000" using a by simp
  have q1: "d div 1000000 < 60" using a by simp
  have "(d div 1000000) mod 86400 = d div 1000000" using q0 q1 by simp
  then show ?thesis using q1 by (simp add: seconds_def)
qed

lemma reset_keeps_window:
  assumes "now < t0 + 60000000"
  shows "in_window t0 now (reset_if_needed now tr) = in_window t0 now tr"
proof -
  have "filter (\<lambda>x. t0 \<le> x \<and> x \<le> now) (filter (\<lambda>t. seconds (now - t) < 60) xs)
      = filter (\<lambda>x. t0 \<le> x \<and> x \<le> now) xs" for xs
    using assms by (induction xs) (auto simp: seconds_small)
  then show ?thesis by (simp add: reset_if_needed_def Let_def in_window_def)
qed

lemma in_window_mono: "t \<le> t' \<Longrightarrow> in_window t0 t tr \<le> in_window t0 t' tr"
proof -
  assume le: "t \<le> t'"
  have "length (filter (\<lambda>x. t0 \<le> x \<and> x \<le> t) xs) \<le> length (filter (\<lambda>x. t0 \<le> x \<and> x \<le> t') xs)" for xs
    using le by (induction xs) auto
  then show ?thesis by (simp add: in_window_def)
qed

lemma in_window_le_length: "in_window t0 t tr \<le> length (minute_requests tr)"
  by (simp add: in_window_def)

lemma in_window_record:
  "t0 \<le> t \<Longrightarrow> in_window t0 t (record_usage t tokens cost tr) = Suc (in_window t0 t tr)"
  by (simp add: in_window_def record_usage_def)

lemma reset_if_needed_limits:
  "max_requests_per_minute (reset_if_needed now tr) = max_requests_per_minute tr"
  "max_tokens_per_hour (reset_if_needed now tr) = max_tokens_per_hour tr"
  "max_cost_per_hour (reset_if_needed now tr) = max_cost_per_hour tr"
  "max_tokens_per_request (reset_if_needed now tr) = max_tokens_per_request tr"
  by (simp_all add: reset_if_needed_def Let_def)

lemma record_usage_limits:
  "max_requests_per_minute (record_usage now tokens cost tr) = max_requests_per_minute tr"
  by (simp add: record_usage_def)

lemma check_limits_snd: "snd (check_limits now now' est tr) = reset_if_needed now tr"
  by (simp add: check_limits_def Let_def split: list.splits)

lemma check_limits_admitted:
  "admitted (fst (check_limits now now' est tr)) \<Longrightarrow>
     int (length (minute_requests (reset_if_needed now tr))) < max_requests_per_minute tr"
  by (auto simp: check_limits_def Let_def admitted_def reset_if_needed_limits split: list.splits if_splits)

lemma check_limits_rate_limited:
  "max_requests_per_minute tr \<le> int (length (minute_requests (reset_if_needed now tr))) \<Longrightarrow>
   minute_requests (reset_if_needed now tr) \<noteq> [] \<Longrightarrow>
     rate_limited (fst (check_limits now now' est tr))"
  by (auto simp: check_limits_def Let_def rate_limited_def reset_if_needed_limits split: list.splits)

lemma admit_record_run_bound:
  "sorted (clock_readings evs) \<Longrightarrow>
   (\<forall>t \<in> set (clock_readings evs). tcur \<le> t \<and> t < t0 + 60000000) \<Longrightarrow>
   t0 \<le> tcur \<Longrightarrow>
   k \<le> in_window t0 tcur tr \<Longrightarrow>
     int k + int (length (filter admitted (admit_record_run tr evs)))
       \<le> max (int k) (max_requests_per_minute tr)"
proof (induction evs arbitrary: tr k tcur)
  case Nil
  then show ?case by simp
next
  case (Cons ev evs)
  obtain now now' est t_rec tokens cost where ev: "ev = (now, now', est, t_rec, tokens, cost)"
    by (cases ev) auto
  let ?tr1 = "reset_if_needed now tr"
  obtain r where cl: "check_limits now now' est tr = (r, ?tr1)"
    by (metis check_limits_snd prod.collapse)
  have r: "r = fst (check_limits now now' est tr)" by (simp add: cl)
  from Cons.prems ev have times: "tcur \<le> now" "now \<le> t_rec" "now < t0 + 60000000" "t_rec < t0 + 60000000"
    and sorted_rest: "sorted (clock_readings evs)"
    and rest: "\<forall>t \<in> set (clock_readings evs). t_rec \<le> t \<and> t < t0 + 60000000"
    by auto
  have k1: "k \<le> in_window t0 now ?tr1"
    using Cons.prems(4) in_window_mono[OF times(1), of t0 tr] reset_keeps_window[OF times(3), of tr] by simp
  show ?case
  proof (cases "admitted r")
    case True
    let ?tr2 = "record_usage t_rec tokens cost ?tr1"
    have lt: "int k < max_requests_per_minute tr"
    proof -
      have "admitted (fst (check_limits now now' est tr))" using True r by simp
      from check_limits_admitted[OF this] k1 in_window_le_length[of t0 now ?tr1]
      show ?thesis by linarith
    qed
    have t0rec: "t0 \<le> t_rec" using Cons.prems(3) times by linarith
    have "Suc k \<le> in_window t0 t_rec ?tr2"
      using k1 in_window_mono[OF times(2), of t0 ?tr1] in_window_record[OF t0rec, of tokens cost ?tr1] by simp
    from Cons.IH[OF sorted_rest rest t0rec this]
    have "int (Suc k) + int (length (filter admitted (admit_record_run ?tr2 evs)))
            \<le> max (int (Suc k)) (max_requests_per_minute tr)"
      by (simp add: record_usage_limits reset_if_needed_limits)
    then show ?thesis using True lt by (simp add: ev cl)
  next
    case False
    have rest': "\<forall>t \<in> set (clock_readings evs). now \<le> t \<and> t < t0 + 60000000"
      using rest times by auto
    have t0now: "t0 \<le> now" using Cons.prems(3) times by linarith
    from Cons.IH[OF sorted_rest rest' t0now k1]
    show ?thesis using False by (simp add: ev cl reset_if_needed_limits)
  qed
qed

lemma admit_record_run_beyond:
  "sorted (clock_readings evs) \<Longrightarrow>
   (\<forall>t \<in> set (clock_readings evs). tcur \<le> t \<and> t < t0 + 60000000) \<Longrightarrow>
   t0 \<le> tcur \<Longrightarrow>
   k \<le> in_window t0 tcur tr \<Longrightarrow>
   i < length evs \<Longrightarrow>
   1 \<le> max_requests_per_minute tr \<Longrightarrow>
   max_requests_per_minute tr \<le> int k + int (length (filter admitted (take i (admit_record_run tr evs)))) \<Longrightarrow>
     rate_limited (admit_record_run tr evs ! i)"
proof (induction evs arbitrary: tr k tcur i)
  case Nil
  then show ?case by simp
next
  case (Cons ev evs)
  obtain now now' est t_rec tokens cost where ev: "ev = (now, now', est, t_rec, tokens, cost)"
    by (cases ev) auto
  let ?tr1 = "reset_if_needed now tr"
  obtain r where cl: "check_limits now now' est tr = (r, ?tr1)"
    by (metis check_limits_snd prod.collapse)
  have r: "r = fst (check_limits now now' est tr)" by (simp add: cl)
  from Cons.prems ev have times: "tcur \<le> now" "now \<le> t_rec" "now < t0 + 60000000" "t_rec < t0 + 60000000"
    and sorted_rest: "sorted (clock_readings evs)"
    and rest: "\<forall>t \<in> set (clock_readings evs). t_rec \<le> t \<and> t < t0 + 60000000"
    by auto
  have k1: "k \<le> in_window t0 now ?tr1"
    using Cons.prems(4) in_window_mono[OF times(1), of t0 tr] reset_keeps_window[OF times(3), of tr] by simp
  show ?case
  proof (cases i)
    case 0
    with Cons.prems(6,7) have "max_requests_per_minute tr \<le> int k" "1 \<le> k" by auto
    then have "max_requests_per_minute tr \<le> int (length (minute_requests ?tr1))"
      and "minute_requests ?tr1 \<noteq> []"
      using k1 in_window_le_length[of t0 now ?tr1] by auto
    from check_limits_rate_limited[OF this, of now' est] show ?thesis by (simp add: ev cl 0)
  next
    case (Suc j)
    then have j: "j < length evs" using Cons.prems(5) by simp
    show ?thesis
    proof (cases "admitted r")
      case True
      let ?tr2 = "record_usage t_rec tokens cost ?tr1"
      have t0rec: "t0 \<le> t_rec" using Cons.prems(3) times by linarith
      have k2: "Suc k \<le> in_window t0 t_rec ?tr2"
        using k1 in_window_mono[OF times(2), of t0 ?tr1] in_window_record[OF t0rec, of tokens cost ?tr1] by simp
      have m1: "1 \<le> max_requests_per_minute ?tr2"
        using Cons.prems(6) by (simp add: record_usage_limits reset_if_needed_limits)
      have m2: "max_requests_per_minute ?tr2
                 \<le> int (Suc k) + int (length (filter admitted (take j (admit_record_run ?tr2 evs))))"
        using Cons.prems(7) True by (simp add: ev cl Suc record_usage_limits reset_if_needed_limits)
      from Cons.IH[OF sorted_rest rest t0rec k2 j m1 m2]
      show ?thesis using True by (simp add: ev cl Suc)
    next
      case False
      have rest': "\<forall>t \<in> set (clock_readings evs). now \<le> t \<and> t < t0 + 60000000"
        using rest times by auto
      have t0now: "t0 \<le> now" using Cons.prems(3) times by linarith
      have m1: "1 \<le> max_requests_per_minute ?tr1"
        using Cons.prems(6) by (simp add: reset_if_needed_limits)
      have m2: "max_requests_per_minute ?tr1
                 \<le> int k + int (length (filter admitted (take j (admit_record_run ?tr1 evs))))"
        using Cons.prems(7) False by (simp add: ev cl Suc reset_if_needed_limits)
      from Cons.IH[OF sorted_rest rest' t0now k1 j m1 m2]
      show ?thesis using False by (simp add: ev cl Suc)
    qed
  qed
qed


text \<open>
  C2, evaluated where the code departs from it.  A tracker created at time 0 has one
  request in its minute list (stamped 0) and 99000 tokens in its hour accumulator.
  \<open>check_limits\<close> is called one day and 30 seconds later, asking for 2000 tokens: the
  entry is 86430 seconds old and the hour anchor too, but \<open>.seconds\<close> of both
  differences is 30, so the entry is kept, the accumulators are not reset and the
  request is rejected on the stale hour count.
\<close>

theorem check_limits_stale_after_one_day:
  "check_limits 86430000000 86430000000 2000
     ((default_tracker 0)\<lparr>minute_requests := [0], hour_tokens := 99000, hour_cost := 1\<rparr>)
   = (Inr (False, [S ''Token limit reached ('', I 100000, S ''/hour)'']),
      (default_tracker 0)\<lparr>minute_requests := [0], hour_tokens := 99000, hour_cost := 1\<rparr>)"
  by (simp add: check_limits_def reset_if_needed_def default_tracker_def
      ResourceTracker_init_def seconds_def Let_def)

text \<open>
  C3 as stated, refuted: \<open>check_limits\<close> never adds to the minute list, so eleven calls
  at the same instant against the default tracker (ceiling 10) are all admitted.
\<close>

theorem check_run_exceeds_ceiling:
  "\<not> int (length (filter admitted (check_run (default_tracker 0) (replicate 11 (0, 0, 2000)))))
       \<le> max_requests_per_minute (default_tracker 0)"
  by code_simp

text \<open>
  C3 (amended).  For requests that are each checked and, when admitted, recorded, with
  non-decreasing clock readings that all lie within one window of 60 seconds, and a
  ceiling of at least one: the number of admitted requests never exceeds
  \<open>max_requests_per_minute\<close>, and every request made once that many have been admitted
  is rejected with the rate-limit reason.
\<close>

theorem admit_record_run_ceiling:
  assumes "sorted (clock_readings evs)"
    and "\<forall>t \<in> set (clock_readings evs). t0 \<le> t \<and> t < t0 + 60000000"
    and "1 \<le> max_requests_per_minute tr"
  shows "int (length (filter admitted (admit_record_run tr evs))) \<le> max_requests_per_minute tr
       \<and> (\<forall>i < length evs.
            max_requests_per_minute tr
              \<le> int (length (filter admitted (take i (admit_record_run tr evs))))
            \<longrightarrow> rate_limited (admit_record_run tr evs ! i))"
proof
  have k0: "0 \<le> in_window t0 t0 tr" by simp
  from admit_record_run_bound[OF assms(1) assms(2) order_refl k0] assms(3)
  show "int (length (filter admitted (admit_record_run tr evs))) \<le> max_requests_per_minute tr"
    by simp
next
  have k0: "0 \<le> in_window t0 t0 tr" by simp
  show "\<forall>i < length evs.
            max_requests_per_minute tr
              \<le> int (length (filter admitted (take i (admit_record_run tr evs))))
            \<longrightarrow> rate_limited (admit_record_run tr evs ! i)"
  proof (intro allI impI)
    fix i
    assume i: "i < length evs"
      and m: "max_requests_per_minute tr
                \<le> int (length (filter admitted (take i (admit_record_run tr evs))))"
    from m have m': "max_requests_per_minute tr
                \<le> int 0 + int (length (filter admitted (take i (admit_record_run tr evs))))"
      by simp
    from admit_record_run_beyond[OF assms(1) assms(2) order_refl k0 i assms(3) m']
    show "rate_limited (admit_record_run tr evs ! i)" .
  qed
qed

theorem admit_record_run_ceiling_witness:
  "sorted (clock_readings [(0, 0, 100, 1000000, 50, 1 / 1000), (2000000, 2000000, 100, 3000000, 50, 1 / 1000)])
   \<and> list_all (\<lambda>t. 0 \<le> t \<and> t < 0 + 60000000)
        (clock_readings [(0, 0, 100, 1000000, 50, 1 / 1000), (2000000, 2000000, 100, 3000000, 50, 1 / 1000)])
   \<and> 1 \<le> max_requests_per_minute (ResourceTracker_init 2000 1 5 100000 0)
   \<and> int (length (filter admitted (admit_record_run (ResourceTracker_init 2000 1 5 100000 0)
        [(0, 0, 100, 1000000, 50, 1 / 1000), (2000000, 2000000, 100, 3000000, 50, 1 / 1000)]))) \<le> 1
   \<and> rate_limited (admit_record_run (ResourceTracker_init 2000 1 5 100000 0)
        [(0, 0, 100, 1000000, 50, 1 / 1000), (2000000, 2000000, 100, 3000000, 50, 1 / 1000)] ! 1)"
proof -
  let ?evs = "[(0, 0, 100, 1000000, 50, 1 / 1000), (2000000, 2000000, 100, 3000000, 50, 1 / 1000)]
                :: (datetime \<times> datetime \<times> int \<times> datetime \<times> int \<times> real) list"
  let ?tr = "ResourceTracker_init 2000 1 5 100000 0"
  have h1: "sorted (clock_readings ?evs)" by simp
  have h2: "\<forall>t \<in> set (clock_readings ?evs). 0 \<le> t \<and> t < 0 + 60000000" by simp
  have h3: "1 \<le> max_requests_per_minute ?tr" by (simp add: ResourceTracker_init_def)
  have run: "admit_record_run ?tr ?evs
               = [Inr (True, [S ''OK'']), Inr (False, [S ''Rate limit reached. Wait '', I 59, S ''s''])]"
    by (simp add: check_limits_def reset_if_needed_def record_usage_def ResourceTracker_init_def
        seconds_def admitted_def Let_def)
  have m: "max_requests_per_minute ?tr = 1" by (simp add: ResourceTracker_init_def)
  from admit_record_run_ceiling[OF h1 h2 h3] have
    c1: "int (length (filter admitted (admit_record_run ?tr ?evs))) \<le> max_requests_per_minute ?tr"
    and c2: "\<forall>i < length ?evs.
            max_requests_per_minute ?tr
              \<le> int (length (filter admitted (take i (admit_record_run ?tr ?evs))))
            \<longrightarrow> rate_limited (admit_record_run ?tr ?evs ! i)"
    by blast+
  have len: "1 < length ?evs" by simp
  have full: "max_requests_per_minute ?tr
                \<le> int (length (filter admitted (take 1 (admit_record_run ?tr ?evs))))"
    unfolding run m by (simp add: admitted_def)
  have c3: "rate_limited (admit_record_run ?tr ?evs ! 1)"
    using c2 len full by blast
  have h2': "list_all (\<lambda>t. 0 \<le> t \<and> t < 0 + 60000000) (clock_readings ?evs)" by simp
  from h1 h2' h3 c1 c3 show ?thesis unfolding m by blast
qed

text \<open>
  C4, evaluated where the code departs from it.  The hour anchor is 0 and
  \<open>check_limits\<close> (through \<open>_reset_if_needed\<close>) runs one day and ten minutes later: the
  anchor is 87000 seconds old, \<open>.seconds\<close> of the difference is 600, and neither the
  accumulators nor the anchor change.
\<close>

theorem reset_if_needed_skipped_after_one_day:
  "reset_if_needed 87000000000
     ((default_tracker 0)\<lparr>hour_tokens := 99000, hour_cost := 1\<rparr>)
   = (default_tracker 0)\<lparr>hour_tokens := 99000, hour_cost := 1\<rparr>"
  by (simp add: reset_if_needed_def default_tracker_def ResourceTracker_init_def seconds_def Let_def)

section \<open>Properties of the request engine\<close>

lemma generate_rejected:
  assumes "check_limits now now' (requested_tokens mta self) (tracker self) = (Inr (False, message), tr1)"
  shows "generate now now' now'' prompt system_prompt mta (self, w)
           = (Inr (failure_response self (S ''Resource limit: '' # message)),
              self\<lparr>tracker := reset_if_needed now (tracker self)\<rparr>, w)"
proof -
  have "tr1 = reset_if_needed now (tracker self)"
    using assms check_limits_snd[of now now' "requested_tokens mta self" "tracker self"] by simp
  with assms show ?thesis
    by (simp add: generate_def Let_def failure_response_def)
qed

lemma generate_openai_recorded:
  assumes "check_limits now now' (requested_tokens mta self) (tracker self) = (Inr (True, message), tr1)"
    and "self_provider self = OPENAI"
    and "openai_client self = Some client"
    and "client (openai_request self prompt system_prompt (requested_tokens mta self)) w = (Inr response, w1)"
  shows "\<exists>r. generate now now' now'' prompt system_prompt mta (self, w)
           = (Inr r,
              self\<lparr>tracker := record_usage now'' (usage_total_tokens (usage response))
                 ((real_of_int (usage_prompt_tokens (usage response)) / 1000) * (15 / 100000)
                  + (real_of_int (usage_completion_tokens (usage response)) / 1000) * (6 / 10000))
                 (reset_if_needed now (tracker self))\<rparr>,
              w1)"
proof -
  have "tr1 = reset_if_needed now (tracker self)"
    using assms(1) check_limits_snd[of now now' "requested_tokens mta self" "tracker self"] by simp
  with assms show ?thesis
    by (simp add: generate_def Let_def openai_generate_def openai_request_def split: list.splits)
qed

lemma generate_anthropic_recorded:
  assumes "check_limits now now' (requested_tokens mta self) (tracker self) = (Inr (True, message), tr1)"
    and "self_provider self = ANTHROPIC"
    and "anthropic_client self = Some client"
    and "client (anthropic_request self prompt system_prompt (requested_tokens mta self)) w = (Inr response, w1)"
  shows "\<exists>r. generate now now' now'' prompt system_prompt mta (self, w)
           = (Inr r,
              self\<lparr>tracker := record_usage now''
                 (input_tokens (message_usage response) + output_tokens (message_usage response))
                 ((real_of_int (input_tokens (message_usage response)) / 1000) * (3 / 1000)
                  + (real_of_int (output_tokens (message_usage response)) / 1000) * (15 / 1000))
                 (reset_if_needed now (tracker self))\<rparr>,
              w1)"
proof -
  have "tr1 = reset_if_needed now (tracker self)"
    using assms(1) check_limits_snd[of now now' "requested_tokens mta self" "tracker self"] by simp
  with assms show ?thesis
    by (simp add: generate_def Let_def anthropic_generate_def anthropic_request_def split: list.splits)
qed

lemma reset_if_needed_total_tokens:
  "total_tokens (reset_if_needed now tr) = total_tokens tr"
  by (simp add: reset_if_needed_def Let_def)

lemma reset_if_needed_total_cost:
  "total_cost (reset_if_needed now tr) = total_cost tr"
  by (simp add: reset_if_needed_def Let_def)

lemma openai_generate_shape:
  "openai_generate now prompt sp mt (self, w) = (Inr r, self', w') \<Longrightarrow> success r \<and> error r = None"
  by (auto simp: openai_generate_def Let_def split: option.splits prod.splits sum.splits list.splits)

lemma anthropic_generate_shape:
  "anthropic_generate now prompt sp mt (self, w) = (Inr r, self', w') \<Longrightarrow> success r \<and> error r = None"
  by (auto simp: anthropic_generate_def Let_def split: option.splits prod.splits sum.splits list.splits)

lemma generate_shape:
  assumes "generate now now' now'' prompt sp mta (self, w) = (Inr r, self', w')"
  shows "(success r \<and> error r = None) \<or> (\<not> success r \<and> error r \<noteq> None \<and> content r = [])"
  using assms
  by (auto simp: generate_def Let_def failure_response_def split: prod.splits sum.splits if_splits
      dest: openai_generate_shape anthropic_generate_shape)

text \<open>
  C1.  When \<open>check_limits\<close> rejects, \<open>generate\<close> returns the failure Response whose error
  is \<open>Resource limit:\<close> followed by the rejection reason, the world is returned as it
  was (no client was called), and the tracker is the old one after
  \<open>_reset_if_needed\<close> alone, with the lifetime totals unchanged.  When \<open>check_limits\<close>
  admits and the call of the configured client returns a reply, \<open>generate\<close> returns a
  Response and the tracker has recorded the reply's token count and its cost.
\<close>

theorem generate_admit_before_record_after:
  "(\<forall>message tr1.
      check_limits now now' (requested_tokens mta self) (tracker self) = (Inr (False, message), tr1)
      \<longrightarrow> generate now now' now'' prompt system_prompt mta (self, w)
            = (Inr (failure_response self (S ''Resource limit: '' # message)),
               self\<lparr>tracker := reset_if_needed now (tracker self)\<rparr>, w)
          \<and> total_requests (reset_if_needed now (tracker self)) = total_requests (tracker self)
          \<and> total_tokens (reset_if_needed now (tracker self)) = total_tokens (tracker self)
          \<and> total_cost (reset_if_needed now (tracker self)) = total_cost (tracker self))
   \<and> (\<forall>message tr1 client response w1.
        check_limits now now' (requested_tokens mta self) (tracker self) = (Inr (True, message), tr1)
        \<and> self_provider self = OPENAI \<and> openai_client self = Some client
        \<and> client (openai_request self prompt system_prompt (requested_tokens mta self)) w
            = (Inr response, w1)
        \<longrightarrow> (\<exists>r. generate now now' now'' prompt system_prompt mta (self, w)
                 = (Inr r,
                    self\<lparr>tracker := record_usage now'' (usage_total_tokens (usage response))
                       ((real_of_int (usage_prompt_tokens (usage response)) / 1000) * (15 / 100000)
                        + (real_of_int (usage_completion_tokens (usage response)) / 1000) * (6 / 10000))
                       (reset_if_needed now (tracker self))\<rparr>,
                    w1)))
   \<and> (\<forall>message tr1 client response w1.
        check_limits now now' (requested_tokens mta self) (tracker self) = (Inr (True, message), tr1)
        \<and> self_provider self = ANTHROPIC \<and> anthropic_client self = Some client
        \<and> client (anthropic_request self prompt system_prompt (requested_tokens mta self)) w
            = (Inr response, w1)
        \<longrightarrow> (\<exists>r. generate now now' now'' prompt system_prompt mta (self, w)
                 = (Inr r,
                    self\<lparr>tracker := record_usage now''
                       (input_tokens (message_usage response) + output_tokens (message_usage response))
                       ((real_of_int (input_tokens (message_usage response)) / 1000) * (3 / 1000)
                        + (real_of_int (output_tokens (message_usage response)) / 1000) * (15 / 1000))
                       (reset_if_needed now (tracker self))\<rparr>,
                    w1)))"
proof (intro conjI allI impI)
  fix message tr1
  assume "check_limits now now' (requested_tokens mta self) (tracker self) = (Inr (False, message), tr1)"
  then show "generate now now' now'' prompt system_prompt mta (self, w)
            = (Inr (failure_response self (S ''Resource limit: '' # message)),
               self\<lparr>tracker := reset_if_needed now (tracker self)\<rparr>, w)"
    by (rule generate_rejected)
next
  fix message tr1 client response w1
  assume "check_limits now now' (requested_tokens mta self) (tracker self) = (Inr (True, message), tr1)
        \<and> self_provider self = OPENAI \<and> openai_client self = Some client
        \<and> client (openai_request self prompt system_prompt (requested_tokens mta self)) w
            = (Inr response, w1)"
  then show "\<exists>r. generate now now' now'' prompt system_prompt mta (self, w)
                 = (Inr r,
                    self\<lparr>tracker := record_usage now'' (usage_total_tokens (usage response))
                       ((real_of_int (usage_prompt_tokens (usage response)) / 1000) * (15 / 100000)
                        + (real_of_int (usage_completion_tokens (usage response)) / 1000) * (6 / 10000))
                       (reset_if_needed now (tracker self))\<rparr>,
                    w1)"
    by (elim conjE) (rule generate_openai_recorded)
next
  fix message tr1 client response w1
  assume "check_limits now now' (requested_tokens mta self) (tracker self) = (Inr (True, message), tr1)
        \<and> self_provider self = ANTHROPIC \<and> anthropic_client self = Some client
        \<and> client (anthropic_request self prompt system_prompt (requested_tokens mta self)) w
            = (Inr response, w1)"
  then show "\<exists>r. generate now now' now'' prompt system_prompt mta (self, w)
                 = (Inr r,
                    self\<lparr>tracker := record_usage now''
                       (input_tokens (message_usage response) + output_tokens (message_usage response))
                       ((real_of_int (input_tokens (message_usage response)) / 1000) * (3 / 1000)
                        + (real_of_int (output_tokens (message_usage response)) / 1000) * (15 / 1000))
                       (reset_if_needed now (tracker self))\<rparr>,
                    w1)"
    by (elim conjE) (rule generate_anthropic_recorded)
qed (simp_all add: reset_if_needed_totals reset_if_needed_total_tokens reset_if_needed_total_cost)

theorem generate_admit_before_record_after_witness:
  "check_limits 0 0 (requested_tokens None (openai_engine (Some (replying_client ''{}''))
        ((default_tracker 0)\<lparr>hour_tokens := 99000\<rparr>)))
      (tracker (openai_engine (Some (replying_client ''{}'')) ((default_tracker 0)\<lparr>hour_tokens := 99000\<rparr>)))
     = (Inr (False, [S ''Token limit reached ('', I 100000, S ''/hour)'']),
        (default_tracker 0)\<lparr>hour_tokens := 99000\<rparr>)
   \<and> generate 0 0 1000000 ''hi'' None None
        (openai_engine (Some (replying_client ''{}'')) ((default_tracker 0)\<lparr>hour_tokens := 99000\<rparr>), 0)
     = (Inr \<lparr>content = [], model = ''gpt-4o-mini'', tokens_used = 0, cost_usd = 0,
             provider = ''openai'', success = False,
             error = Some [S ''Resource limit: '', S ''Token limit reached ('', I 100000, S ''/hour)'']\<rparr>,
        openai_engine (Some (replying_client ''{}'')) ((default_tracker 0)\<lparr>hour_tokens := 99000\<rparr>), 0)
   \<and> (\<exists>r. generate 0 0 1000000 ''hi'' None None
              (openai_engine (Some (replying_client ''{}'')) (default_tracker 0), 0)
            = (Inr r,
               openai_engine (Some (replying_client ''{}''))
                 (record_usage 1000000 15 (9 / 2000000) (default_tracker 0)), 1))
   \<and> (\<exists>r. generate 0 0 1000000 ''hi'' None None
              (anthropic_engine (Some (replying_anthropic_client ''{}'')) (default_tracker 0), 0)
            = (Inr r,
               anthropic_engine (Some (replying_anthropic_client ''{}''))
                 (record_usage 1000000 15 (21 / 200000) (default_tracker 0)), 1))"
proof -
  let ?tr = "(default_tracker 0)\<lparr>hour_tokens := 99000\<rparr>"
  let ?E1 = "openai_engine (Some (replying_client ''{}'')) ?tr"
  let ?E2 = "openai_engine (Some (replying_client ''{}'')) (default_tracker 0)"
  let ?E3 = "anthropic_engine (Some (replying_anthropic_client ''{}'')) (default_tracker 0)"
  note defs = check_limits_def reset_if_needed_def default_tracker_def ResourceTracker_init_def
    seconds_def requested_tokens_def openai_engine_def anthropic_engine_def Let_def
  have r0: "reset_if_needed 0 ?tr = ?tr" "reset_if_needed 0 (default_tracker 0) = default_tracker 0"
    by (simp_all add: defs)
  have h1: "check_limits 0 0 (requested_tokens None ?E1) (tracker ?E1)
              = (Inr (False, [S ''Token limit reached ('', I 100000, S ''/hour)'']), ?tr)"
    by (simp add: defs)
  have c1: "generate 0 0 1000000 ''hi'' None None (?E1, 0::nat)
              = (Inr (failure_response ?E1
                   (S ''Resource limit: '' # [S ''Token limit reached ('', I 100000, S ''/hour)''])),
                 ?E1\<lparr>tracker := reset_if_needed 0 (tracker ?E1)\<rparr>, 0)"
    using generate_admit_before_record_after[where now = 0 and now' = 0 and mta = None
        and self = ?E1 and now'' = 1000000 and prompt = "''hi''" and system_prompt = None
        and w = "0::nat", THEN conjunct1, rule_format, OF h1]
    by simp
  have h2: "check_limits 0 0 (requested_tokens None ?E2) (tracker ?E2)
              = (Inr (True, [S ''OK'']), default_tracker 0)
            \<and> self_provider ?E2 = OPENAI \<and> openai_client ?E2 = Some (replying_client ''{}'')
            \<and> replying_client ''{}'' (openai_request ?E2 ''hi'' None (requested_tokens None ?E2)) 0
               = (Inr \<lparr>usage = \<lparr>usage_prompt_tokens = 10, usage_completion_tokens = 5,
                          usage_total_tokens = 15\<rparr>, choices = [''{}'']\<rparr>, Suc 0)"
    by (simp add: defs replying_client_def)
  have c2: "\<exists>r. generate 0 0 1000000 ''hi'' None None (?E2, 0::nat)
              = (Inr r, ?E2\<lparr>tracker := record_usage 1000000 15 (9 / 2000000)
                                  (reset_if_needed 0 (tracker ?E2))\<rparr>, Suc 0)"
    using generate_admit_before_record_after[where now = 0 and now' = 0 and mta = None
        and self = ?E2 and now'' = 1000000 and prompt = "''hi''" and system_prompt = None
        and w = "0::nat", THEN conjunct2, THEN conjunct1, rule_format, OF h2]
    by simp
  have h3: "check_limits 0 0 (requested_tokens None ?E3) (tracker ?E3)
              = (Inr (True, [S ''OK'']), default_tracker 0)
            \<and> self_provider ?E3 = ANTHROPIC
            \<and> anthropic_client ?E3 = Some (replying_anthropic_client ''{}'')
            \<and> replying_anthropic_client ''{}''
                 (anthropic_request ?E3 ''hi'' None (requested_tokens None ?E3)) 0
               = (Inr \<lparr>message_usage = \<lparr>input_tokens = 10, output_tokens = 5\<rparr>,
                       message_content = [''{}'']\<rparr>, Suc 0)"
    by (simp add: defs replying_anthropic_client_def)
  have c3: "\<exists>r. generate 0 0 1000000 ''hi'' None None (?E3, 0::nat)
              = (Inr r, ?E3\<lparr>tracker := record_usage 1000000 15 (21 / 200000)
                                  (reset_if_needed 0 (tracker ?E3))\<rparr>, Suc 0)"
    using generate_admit_before_record_after[where now = 0 and now' = 0 and mta = None
        and self = ?E3 and now'' = 1000000 and prompt = "''hi''" and system_prompt = None
        and w = "0::nat", THEN conjunct2, THEN conjunct2, rule_format, OF h3]
    by simp
  have e1: "?E1\<lparr>tracker := reset_if_needed 0 (tracker ?E1)\<rparr> = ?E1"
    by (simp add: openai_engine_def r0)
  have e2: "?E2\<lparr>tracker := record_usage 1000000 15 (9 / 2000000) (reset_if_needed 0 (tracker ?E2))\<rparr>
             = openai_engine (Some (replying_client ''{}''))
                 (record_usage 1000000 15 (9 / 2000000) (default_tracker 0))"
    by (simp add: openai_engine_def r0)
  have e3: "?E3\<lparr>tracker := record_usage 1000000 15 (21 / 200000) (reset_if_needed 0 (tracker ?E3))\<rparr>
             = anthropic_engine (Some (replying_anthropic_client ''{}''))
                 (record_usage 1000000 15 (21 / 200000) (default_tracker 0))"
    by (simp add: anthropic_engine_def r0)
  have f1: "failure_response ?E1
              (S ''Resource limit: '' # [S ''Token limit reached ('', I 100000, S ''/hour)''])
            = \<lparr>content = [], model = ''gpt-4o-mini'', tokens_used = 0, cost_usd = 0,
               provider = ''openai'', success = False,
               error = Some [S ''Resource limit: '', S ''Token limit reached ('', I 100000, S ''/hour)'']\<rparr>"
    by (simp add: failure_response_def openai_engine_def)
  have t1: "tracker ?E1 = ?tr" by (simp add: openai_engine_def)
  from h1 c1 c2 c3 show ?thesis
    unfolding e1 e2 e3 f1 by simp
qed

text \<open>
  C5 as stated, refuted: a client whose reply carries the empty text makes \<open>generate\<close>
  return \<open>success = True\<close> with empty content and no error, which is neither of the two
  shapes of the claim.
\<close>

theorem generate_success_with_empty_content:
  "(case fst (generate 0 0 1000000 ''hi'' None None
                (openai_engine (Some (replying_client [])) (default_tracker 0), 0)) of
      Inr r \<Rightarrow> \<not> ((success r \<and> content r \<noteq> [] \<and> error r = None)
                    \<or> (\<not> success r \<and> error r \<noteq> None \<and> content r = []))
    | Inl e \<Rightarrow> False)"
  by (simp add: generate_def openai_generate_def openai_engine_def replying_client_def
      requested_tokens_def check_limits_def reset_if_needed_def default_tracker_def
      ResourceTracker_init_def seconds_def Let_def)

text \<open>
  C5 (amended).  Every Response returned by \<open>generate\<close> satisfies exactly one of:
  \<open>success = True\<close> with no error (the content is the text of the provider's reply,
  which may be empty), or \<open>success = False\<close> with the error set and empty content.
\<close>

theorem generate_response_shape:
  assumes "generate now now' now'' prompt system_prompt mta (self, w) = (Inr r, self', w')"
  shows "(success r \<and> error r = None) \<noteq> (\<not> success r \<and> error r \<noteq> None \<and> content r = [])"
  using generate_shape[OF assms] by blast

theorem generate_response_shape_witness:
  "generate 0 0 1000000 ''hi'' None None
       (openai_engine (Some (replying_client ''{}'')) (default_tracker 0), 0)
     = (Inr \<lparr>content = ''{}'', model = ''gpt-4o-mini'', tokens_used = 15, cost_usd = 9 / 2000000,
             provider = ''openai'', success = True, error = None\<rparr>,
        openai_engine (Some (replying_client ''{}''))
          (record_usage 1000000 15 (9 / 2000000) (default_tracker 0)), 1)
   \<and> ((success \<lparr>content = ''{}'', model = ''gpt-4o-mini'', tokens_used = 15, cost_usd = 9 / 2000000,
             provider = ''openai'', success = True, error = None\<rparr>
        \<and> error \<lparr>content = ''{}'', model = ''gpt-4o-mini'', tokens_used = 15, cost_usd = 9 / 2000000,
             provider = ''openai'', success = True, error = None\<rparr> = None)
       \<noteq> (\<not> success \<lparr>content = ''{}'', model = ''gpt-4o-mini'', tokens_used = 15, cost_usd = 9 / 2000000,
             provider = ''openai'', success = True, error = None\<rparr>
          \<and> error \<lparr>content = ''{}'', model = ''gpt-4o-mini'', tokens_used = 15, cost_usd = 9 / 2000000,
             provider = ''openai'', success = True, error = None\<rparr> \<noteq> None
          \<and> content \<lparr>content = ''{}'', model = ''gpt-4o-mini'', tokens_used = 15, cost_usd = 9 / 2000000,
             provider = ''openai'', success = True, error = None\<rparr> = []))"
proof -
  have g: "generate 0 0 1000000 ''hi'' None None
       (openai_engine (Some (replying_client ''{}'')) (default_tracker 0), 0)
     = (Inr \<lparr>content = ''{}'', model = ''gpt-4o-mini'', tokens_used = 15, cost_usd = 9 / 2000000,
             provider = ''openai'', success = True, error = None\<rparr>,
        openai_engine (Some (replying_client ''{}''))
          (record_usage 1000000 15 (9 / 2000000) (default_tracker 0)), 1)"
    by (simp add: generate_def openai_generate_def openai_engine_def replying_client_def
      requested_tokens_def check_limits_def reset_if_needed_def default_tracker_def
      ResourceTracker_init_def seconds_def record_usage_def Let_def)
  from generate_response_shape[OF g] g show ?thesis by blast
qed

text \<open>
  C7, evaluated where the code departs from it.  The engine has no OpenAI client and its
  tracker was built with a ceiling of 0 requests per minute: \<open>check_limits\<close> finds
  the ceiling reached, indexes the empty minute list for the waiting time and raises
  \<open>IndexError\<close>, outside the \<open>try\<close> block of \<open>generate\<close>.
\<close>

theorem generate_unconfigured_raises:
  "generate 0 0 0 ''hi'' None None (openai_engine None (ResourceTracker_init 2000 0 5 100000 0), w)
   = (Inl (IndexError [S ''list index out of range'']),
      openai_engine None (ResourceTracker_init 2000 0 5 100000 0), w)"
  by (simp add: generate_def openai_engine_def requested_tokens_def check_limits_def
      reset_if_needed_def ResourceTracker_init_def seconds_def Let_def)

lemma generate_unconfigured_openai:
  assumes "self_provider self = OPENAI" and "openai_client self = None"
    and "check_limits now now' (requested_tokens mta self) (tracker self) = (Inr (ok, message), tr1)"
  shows "\<exists>e. generate now now' now'' prompt system_prompt mta (self, w)
           = (Inr (failure_response self e), self\<lparr>tracker := tr1\<rparr>, w)"
  using assms
  by (simp add: generate_def openai_generate_def Let_def failure_response_def)



section \<open>Properties of the structured-output parser\<close>

lemma split_not_Nil: "split sep s \<noteq> []"
  by (induction sep s rule: split.induct) (auto split: list.splits)

lemma hd_split: "sep \<noteq> [] \<Longrightarrow> hd (split sep s) = before_first sep s"
proof (induction sep s rule: split.induct)
  case (1 sep)
  then show ?case by simp
next
  case (2 sep c cs)
  show ?case
  proof (cases "prefix sep (c # cs)")
    case True
    with "2.prems" show ?thesis by simp
  next
    case False
    with 2 split_not_Nil[of sep cs] show ?thesis
      by (cases "split sep cs") auto
  qed
qed

lemma split_contains:
  "sep \<noteq> [] \<Longrightarrow> contains sep s \<Longrightarrow>
     split sep s = before_first sep s # split sep (after_first sep s)"
proof (induction sep s rule: split.induct)
  case (1 sep)
  then show ?case by simp
next
  case (2 sep c cs)
  show ?case
  proof (cases "prefix sep (c # cs)")
    case True
    with "2.prems" show ?thesis by simp
  next
    case False
    with "2.prems" have "contains sep cs" by simp
    with 2 False show ?thesis by simp
  qed
qed

lemma split_second:
  assumes "sep \<noteq> []" and "contains sep s"
  shows "1 < length (split sep s)"
    and "split sep s ! 1 = before_first sep (after_first sep s)"
proof -
  have eq: "split sep s = before_first sep s # split sep (after_first sep s)"
    using assms by (rule split_contains)
  show "1 < length (split sep s)"
    using split_not_Nil[of sep "after_first sep s"] by (simp add: eq)
  show "split sep s ! 1 = before_first sep (after_first sep s)"
    using hd_split[OF assms(1), of "after_first sep s"] split_not_Nil[of sep "after_first sep s"]
    by (simp add: eq hd_conv_nth)
qed

lemma prefix_before_first:
  "prefix a (before_first sep s) \<Longrightarrow> prefix a s"
proof (induction s arbitrary: a)
  case Nil
  then show ?case by simp
next
  case (Cons c cs)
  then show ?case
    by (cases a) (auto split: if_splits)
qed

lemma before_first_idem: "before_first sep (before_first sep s) = before_first sep s"
proof (induction s)
  case Nil
  then show ?case by simp
next
  case (Cons c cs)
  show ?case
  proof (cases "prefix sep (c # cs)")
    case True
    then show ?thesis by simp
  next
    case False
    have "\<not> prefix sep (c # before_first sep cs)"
    proof
      assume "prefix sep (c # before_first sep cs)"
      then have "prefix sep (before_first sep (c # cs))" using False by simp
      then have "prefix sep (c # cs)" by (rule prefix_before_first)
      with False show False by contradiction
    qed
    with False Cons show ?thesis by simp
  qed
qed

lemma fence_not_Nil: "fence \<noteq> []" "json_fence \<noteq> []"
  by (simp_all add: fence_def json_fence_def)

lemma json_text_spec:
  "json_text raw =
     strip (if contains json_fence (strip raw)
            then before_first fence (before_first json_fence (after_first json_fence (strip raw)))
            else if contains fence (strip raw)
            then before_first fence (after_first fence (strip raw))
            else strip raw)"
proof (cases "contains json_fence (strip raw)")
  case True
  from split_second(2)[OF fence_not_Nil(2) True]
  have "hd (split fence (split json_fence (strip raw) ! 1))
          = before_first fence (before_first json_fence (after_first json_fence (strip raw)))"
    by (simp add: hd_split fence_not_Nil)
  with True show ?thesis by (simp add: json_text_def Let_def)
next
  case False
  show ?thesis
  proof (cases "contains fence (strip raw)")
    case True
    from split_second(2)[OF fence_not_Nil(1) True]
    have "hd (split fence (split fence (strip raw) ! 1))
            = before_first fence (after_first fence (strip raw))"
      by (simp add: hd_split fence_not_Nil before_first_idem)
    with True False show ?thesis by (simp add: json_text_def Let_def)
  next
    case nofence: False
    with False show ?thesis by (simp add: json_text_def Let_def)
  qed
qed

lemma no_json_tag:
  assumes "\<not> contains json_fence s"
  shows "\<not> prefix ''json'' (after_first fence s)"
  using assms
proof (induction s)
  case Nil
  then show ?case by simp
next
  case (Cons c cs)
  show ?case
  proof (cases "prefix fence (c # cs)")
    case True
    then obtain rest where rest: "c # cs = fence @ rest" by (auto simp: prefix_def)
    have "after_first fence (c # cs) = rest"
      using True rest by (simp add: fence_def del: Cons_prefix_Cons)
    moreover have "\<not> prefix ''json'' rest"
    proof
      assume "prefix ''json'' rest"
      then have "prefix json_fence (c # cs)" by (simp add: rest json_fence_def)
      with Cons.prems show False by simp
    qed
    ultimately show ?thesis by simp
  next
    case False
    with Cons show ?thesis by simp
  qed
qed

text \<open>
  C6 as stated, refuted: the reply holds a plain fenced block (\<open>foo\<close>) followed by a
  block tagged \<open>json\<close>.  The text handed to the decoder is the contents of the tagged
  block, the second one, not of the first.
\<close>

theorem json_text_prefers_tagged_block:
  "json_text (''Example:'' @ [CHR 0x0A] @ fence @ [CHR 0x0A] @ ''foo'' @ [CHR 0x0A] @ fence
                @ [CHR 0x0A] @ json_fence @ [CHR 0x0A] @ ''{}'' @ [CHR 0x0A] @ fence)
   \<noteq> strip (spec_first_fenced_block
        (strip (''Example:'' @ [CHR 0x0A] @ fence @ [CHR 0x0A] @ ''foo'' @ [CHR 0x0A] @ fence
                @ [CHR 0x0A] @ json_fence @ [CHR 0x0A] @ ''{}'' @ [CHR 0x0A] @ fence)))"
  by code_simp

text \<open>
  C6 (amended).  For every reply text and every decoder: the text handed to
  \<open>json.loads\<close> is the reply stripped of surrounding whitespace, reduced, when it contains
  the marker \<open>```json\<close>, to what lies between the first such marker and the next one, cut
  at its first \<open>```\<close>, or else, when it contains \<open>```\<close>, to what lies between the first
  \<open>```\<close> and the next, and stripped again; without a \<open>```json\<close> marker this is the
  contents of the first fenced block.  The extraction raises nothing: the two list
  indexings are in range.  When decoding fails with \<open>JSONDecodeError\<close> the result is
  the dictionary with the error text and, under \<open>raw\<close>, the reply text unchanged; when
  decoding succeeds the result is the decoded value.
\<close>

theorem parse_json_content_fenced:
  "json_text raw =
     strip (if contains json_fence (strip raw)
            then before_first fence (before_first json_fence (after_first json_fence (strip raw)))
            else if contains fence (strip raw)
            then before_first fence (after_first fence (strip raw))
            else strip raw)
   \<and> (contains fence (strip raw) \<and> \<not> contains json_fence (strip raw)
        \<longrightarrow> json_text raw = strip (spec_first_fenced_block (strip raw)))
   \<and> (contains json_fence (strip raw) \<longrightarrow> 1 < length (split json_fence (strip raw)))
   \<and> (contains fence (strip raw) \<longrightarrow> 1 < length (split fence (strip raw)))
   \<and> split fence piece \<noteq> []
   \<and> (\<forall>e. loads (json_text raw) = Inl (JSONDecodeError e)
         \<longrightarrow> parse_json_content loads raw
             = Inr (PDict [(''error'', PStr (S ''Invalid JSON: '' # e)), (''raw'', PStr [S raw])]))
   \<and> (\<forall>v. loads (json_text raw) = Inr v \<longrightarrow> parse_json_content loads raw = Inr v)"
proof (intro conjI allI impI)
  show "json_text raw =
     strip (if contains json_fence (strip raw)
            then before_first fence (before_first json_fence (after_first json_fence (strip raw)))
            else if contains fence (strip raw)
            then before_first fence (after_first fence (strip raw))
            else strip raw)"
    by (rule json_text_spec)
next
  assume a: "contains fence (strip raw) \<and> \<not> contains json_fence (strip raw)"
  then have "\<not> prefix ''json'' (after_first fence (strip raw))"
    using no_json_tag by blast
  with a show "json_text raw = strip (spec_first_fenced_block (strip raw))"
    by (simp add: json_text_spec spec_first_fenced_block_def Let_def)
next
  assume "contains json_fence (strip raw)"
  then show "1 < length (split json_fence (strip raw))"
    using split_second(1) fence_not_Nil(2) by blast
next
  assume "contains fence (strip raw)"
  then show "1 < length (split fence (strip raw))"
    using split_second(1) fence_not_Nil(1) by blast
next
  show "split fence piece \<noteq> []" by (rule split_not_Nil)
next
  fix e assume "loads (json_text raw) = Inl (JSONDecodeError e)"
  then show "parse_json_content loads raw
             = Inr (PDict [(''error'', PStr (S ''Invalid JSON: '' # e)), (''raw'', PStr [S raw])])"
    by (simp add: parse_json_content_def)
next
  fix v assume "loads (json_text raw) = Inr v"
  then show "parse_json_content loads raw = Inr v"
    by (simp add: parse_json_content_def)
qed

theorem parse_json_content_fenced_witness:
  "contains fence (strip ('' '' @ fence @ ''foo'' @ fence @ ''.''))
   \<and> \<not> contains json_fence (strip ('' '' @ fence @ ''foo'' @ fence @ ''.''))
   \<and> json_text ('' '' @ fence @ ''foo'' @ fence @ ''.'')
       = strip (spec_first_fenced_block (strip ('' '' @ fence @ ''foo'' @ fence @ ''.'')))
   \<and> 1 < length (split fence (strip ('' '' @ fence @ ''foo'' @ fence @ ''.'')))
   \<and> parse_json_content (\<lambda>s. Inl (JSONDecodeError [S ''Expecting value'']))
         ('' '' @ fence @ ''foo'' @ fence @ ''.'')
       = Inr (PDict [(''error'', PStr [S ''Invalid JSON: '', S ''Expecting value'']),
                     (''raw'', PStr [S ('' '' @ fence @ ''foo'' @ fence @ ''.'')])])
   \<and> contains json_fence (strip (''Sure: '' @ json_fence @ '' {} '' @ fence))
   \<and> 1 < length (split json_fence (strip (''Sure: '' @ json_fence @ '' {} '' @ fence)))
   \<and> json_text (''Sure: '' @ json_fence @ '' {} '' @ fence) = ''{}''
   \<and> parse_json_content (\<lambda>s. Inr (PStr [S s])) (''Sure: '' @ json_fence @ '' {} '' @ fence)
       = Inr (PStr [S ''{}''])"
proof -
  let ?a = "'' '' @ fence @ ''foo'' @ fence @ ''.''"
  let ?b = "''Sure: '' @ json_fence @ '' {} '' @ fence"
  let ?fail = "(\<lambda>s. Inl (JSONDecodeError [S ''Expecting value''])) :: string \<Rightarrow> py_exception + pyval"
  let ?echo = "(\<lambda>s. Inr (PStr [S s])) :: string \<Rightarrow> py_exception + pyval"
  have a1: "contains fence (strip ?a) \<and> \<not> contains json_fence (strip ?a)" by code_simp
  have a2: "?fail (json_text ?a) = Inl (JSONDecodeError [S ''Expecting value''])" by simp
  have b1: "contains json_fence (strip ?b)" by code_simp
  have b2: "json_text ?b = ''{}''" by code_simp
  have b3: "?echo (json_text ?b) = Inr (PStr [S ''{}''])" by (subst b2) (rule refl)
  note ta = parse_json_content_fenced[where raw = ?a and loads = ?fail]
  note tb = parse_json_content_fenced[where raw = ?b and loads = ?echo]
  have c1: "json_text ?a = strip (spec_first_fenced_block (strip ?a))"
    using ta a1 by blast
  have c2: "1 < length (split fence (strip ?a))"
    using ta a1 by blast
  have c3: "parse_json_content ?fail ?a
       = Inr (PDict [(''error'', PStr [S ''Invalid JSON: '', S ''Expecting value'']),
                     (''raw'', PStr [S ?a])])"
    using ta a2 by blast
  have c4: "1 < length (split json_fence (strip ?b))"
    using tb b1 by blast
  have c5: "parse_json_content ?echo ?b = Inr (PStr [S ''{}''])"
    using tb b3 by blast
  from a1 c1 c2 c3 b1 c4 b2 c5 show ?thesis by blast
qed

section \<open>The tracker windows within one day\<close>

text \<open>
  While every timestamp is less than one day old, \<open>.seconds\<close> is the whole age in
  seconds, and \<open>_reset_if_needed\<close> keeps exactly the requests of the last 60 seconds and
  resets the hour accumulators once the anchor is 3600 seconds old.  \<open>check_limits\<close>
  never changes the lifetime totals, and \<open>record_usage\<close> appends the timestamp and adds
  its increments to the hour accumulators and to the totals.
\<close>

lemma seconds_within_day:
  assumes "0 \<le> d" and "d < 86400000000"
  shows "seconds d = d div 1000000"
proof -
  have "0 \<le> d div 1000000" using assms(1) by simp
  moreover have "d div 1000000 < 86400" using assms(2) by simp
  ultimately show ?thesis by (simp add: seconds_def)
qed

lemma reset_if_needed_prunes_within_day:
  assumes "\<forall>t \<in> set (minute_requests tr). 0 \<le> now - t \<and> now - t < 86400000000"
  shows "minute_requests (reset_if_needed now tr)
           = filter (\<lambda>t. now - t < 60000000) (minute_requests tr)"
proof -
  have "filter (\<lambda>t. seconds (now - t) < 60) xs = filter (\<lambda>t. now - t < 60000000) xs"
    if "\<forall>t \<in> set xs. 0 \<le> now - t \<and> now - t < 86400000000" for xs
  proof (rule filter_cong[OF refl])
    fix t assume "t \<in> set xs"
    with that have r: "0 \<le> now - t" "now - t < 86400000000" by auto
    have "((now - t) div 1000000 < 60) = (now - t < 60000000)" by linarith
    then show "(seconds (now - t) < 60) = (now - t < 60000000)"
      by (simp add: seconds_within_day[OF r])
  qed
  with assms show ?thesis by (simp add: reset_if_needed_def Let_def)
qed

lemma reset_if_needed_resets_within_day:
  assumes "3600000000 \<le> now - hour_start tr" and "now - hour_start tr < 86400000000"
  shows "hour_tokens (reset_if_needed now tr) = 0"
    and "hour_cost (reset_if_needed now tr) = 0"
    and "hour_start (reset_if_needed now tr) = now"
proof -
  have "0 \<le> now - hour_start tr" using assms(1) by linarith
  then have "seconds (now - hour_start tr) = (now - hour_start tr) div 1000000"
    using assms(2) by (rule seconds_within_day)
  moreover have "3600 \<le> (now - hour_start tr) div 1000000" using assms(1) by linarith
  ultimately have "3600 \<le> seconds (now - hour_start tr)" by simp
  then show "hour_tokens (reset_if_needed now tr) = 0"
    and "hour_cost (reset_if_needed now tr) = 0"
    and "hour_start (reset_if_needed now tr) = now"
    by (simp_all add: reset_if_needed_def Let_def)
qed

lemma check_limits_totals:
  "total_requests (snd (check_limits now now' est tr)) = total_requests tr"
  "total_tokens (snd (check_limits now now' est tr)) = total_tokens tr"
  "total_cost (snd (check_limits now now' est tr)) = total_cost tr"
  by (simp_all add: check_limits_snd reset_if_needed_totals reset_if_needed_total_tokens
      reset_if_needed_total_cost)

lemma record_usage_effect:
  "minute_requests (record_usage now tokens cost tr) = minute_requests tr @ [now]"
  "hour_tokens (record_usage now tokens cost tr) = hour_tokens tr + tokens"
  "hour_cost (record_usage now tokens cost tr) = hour_cost tr + cost"
  "total_requests (record_usage now tokens cost tr) = total_requests tr + 1"
  "total_tokens (record_usage now tokens cost tr) = total_tokens tr + tokens"
  "total_cost (record_usage now tokens cost tr) = total_cost tr + cost"
  by (simp_all add: record_usage_def)

lemma record_usage_totals_mono:
  assumes "0 \<le> tokens" and "0 \<le> cost"
  shows "total_requests tr \<le> total_requests (record_usage now tokens cost tr)"
    and "total_tokens tr \<le> total_tokens (record_usage now tokens cost tr)"
    and "total_cost tr \<le> total_cost (record_usage now tokens cost tr)"
  using assms by (simp_all add: record_usage_def)

lemma check_limits_order:
  assumes "minute_requests (reset_if_needed now tr) \<noteq> [] \<or> 1 \<le> max_requests_per_minute tr"
  shows "check_limits now now' est tr =
     (if max_requests_per_minute tr \<le> int (length (minute_requests (reset_if_needed now tr)))
      then Inr (False, [S ''Rate limit reached. Wait '',
                        I (60 - seconds (now' - hd (minute_requests (reset_if_needed now tr)))), S ''s''])
      else if max_tokens_per_hour tr < hour_tokens (reset_if_needed now tr) + est
      then Inr (False, [S ''Token limit reached ('', I (max_tokens_per_hour tr), S ''/hour)''])
      else if max_cost_per_hour tr
                < hour_cost (reset_if_needed now tr) + (real_of_int est / 1000) * (3 / 100)
      then Inr (False, [S ''Cost limit reached ($'', F (max_cost_per_hour tr), S ''/hour)''])
      else Inr (True, [S ''OK'']),
      reset_if_needed now tr)"
  using assms
  by (cases "minute_requests (reset_if_needed now tr)")
     (auto simp: check_limits_def Let_def reset_if_needed_limits)

section \<open>Properties of the worker contract and the dispatcher\<close>

lemma map_of_modify_entry:
  "map_of (modify_entry k f d) k' = (if k' = k then map_option f (map_of d k) else map_of d k')"
  by (induction d) auto

lemma modify_entry_roles:
  "map (\<lambda>(k, b, r). (k, r)) (modify_entry key (\<lambda>(b, r). (g b, r)) d) = map (\<lambda>(k, b, r). (k, r)) d"
  by (induction d) auto

lemma get_agent_update_agent:
  "get_agent k' (update_agent k f h)
     = (if k' = k then map_option f (get_agent k h) else get_agent k' h)"
  by (cases h) (simp add: get_agent_def update_agent_def map_of_modify_entry
      option.map_comp comp_def case_prod_beta)

lemma same_dispatcher_refl: "same_dispatcher h h"
  by (simp add: same_dispatcher_def)

lemma same_dispatcher_trans:
  "same_dispatcher h h1 \<Longrightarrow> same_dispatcher h1 h2 \<Longrightarrow> same_dispatcher h h2"
  by (simp add: same_dispatcher_def)

lemma same_dispatcher_update_agent: "same_dispatcher h (update_agent k f h)"
  by (cases h) (simp add: same_dispatcher_def update_agent_def modify_entry_roles)

lemma same_dispatcher_world: "same_dispatcher (q, w) (q, w')"
  by (simp add: same_dispatcher_def)

lemma same_dispatcher_run_handler:
  "run_handler key message h = (res, h1) \<Longrightarrow> same_dispatcher h h1"
proof -
  assume a: "run_handler key message h = (res, h1)"
  show ?thesis
  proof (cases "map_of (worker_bees (fst h)) key")
    case None
    with a show ?thesis by (simp add: run_handler_def same_dispatcher_refl)
  next
    case (Some br)
    obtain bee r where br: "br = (bee, r)" by (cases br)
    from a Some br obtain f w1 where "h1 = update_agent key f (fst h, w1)"
      by (auto simp: run_handler_def Let_def split: prod.splits)
    moreover have "same_dispatcher h (fst h, w1)"
      using same_dispatcher_world[of "fst h" "snd h" w1] by simp
    ultimately show ?thesis
      using same_dispatcher_update_agent same_dispatcher_trans by blast
  qed
qed

lemma same_dispatcher_send_message:
  assumes "\<And>m h0 r h1. route m h0 = (r, h1) \<Longrightarrow> same_dispatcher h0 h1"
    and "send_message route key message h = (res, h')"
  shows "same_dispatcher h h'"
proof (cases "get_agent key h")
  case None
  with assms(2) show ?thesis by (simp add: send_message_def same_dispatcher_refl)
next
  case (Some self)
  show ?thesis
  proof (cases "on_message_send self")
    case None
    with Some assms(2) show ?thesis
      by (auto simp: send_message_def Let_def same_dispatcher_update_agent)
  next
    case (Some cb)
    then have cb: "on_message_send self = Some Route_message" by (cases cb) simp
    from assms(2) \<open>get_agent key h = Some self\<close> cb
    obtain r h1 where r: "route (message\<lparr>sender := agent_id self\<rparr>) h = (r, h1)"
      and h': "h' = h1 \<or> h' = update_agent key (\<lambda>a. a\<lparr>messages_sent := messages_sent a + 1\<rparr>) h1"
      by (auto simp: send_message_def Let_def split: option.splits sum.splits prod.splits)
    from assms(1)[OF r] have "same_dispatcher h h1" .
    with h' show ?thesis
      using same_dispatcher_update_agent same_dispatcher_trans by blast
  qed
qed

lemma same_dispatcher_receive_message:
  assumes "\<And>m h0 r h1. route m h0 = (r, h1) \<Longrightarrow> same_dispatcher h0 h1"
    and "receive_message route key message h = (res, h')"
  shows "same_dispatcher h h'"
proof -
  obtain hr h1 where rh: "run_handler key message h = (hr, h1)" by (cases "run_handler key message h")
  have s1: "same_dispatcher h h1" using rh by (rule same_dispatcher_run_handler)
  show ?thesis
  proof (cases hr)
    case (Inl e)
    with assms(2) rh s1 show ?thesis by (simp add: receive_message_def)
  next
    case (Inr response)
    show ?thesis
    proof (cases response)
      case None
      with assms(2) rh Inr have "h' = update_agent key (\<lambda>a. a\<lparr>state := IDLE\<rparr>) h1"
        by (simp add: receive_message_def)
      with s1 show ?thesis using same_dispatcher_update_agent same_dispatcher_trans by blast
    next
      case (Some resp)
      with assms(2) rh Inr obtain r2 h2 where
        sm: "send_message route key resp h1 = (r2, h2)"
        and h': "h' = h2 \<or> h' = update_agent key (\<lambda>a. a\<lparr>state := IDLE\<rparr>) h2"
        by (auto simp: receive_message_def split: option.splits sum.splits prod.splits)
      have "same_dispatcher h1 h2"
        by (rule same_dispatcher_send_message[where route = route, OF _ sm]) (rule assms(1))
      with s1 h' show ?thesis using same_dispatcher_update_agent same_dispatcher_trans by blast
    qed
  qed
qed

lemma same_dispatcher_route_message:
  "route_message n message h = (res, h') \<Longrightarrow> same_dispatcher h h'"
proof (induction n arbitrary: message h res h')
  case 0
  then show ?case by (auto simp: same_dispatcher_refl split: if_splits)
next
  case (Suc n)
  show ?case
  proof (cases "map_of (worker_bees (fst h)) (receiver message) \<noteq> None")
    case True
    with Suc.prems have "receive_message (route_message n) (receiver message) message h = (res, h')"
      by simp
    then show ?thesis
      by (rule same_dispatcher_receive_message[where route = "route_message n", rotated]) (rule Suc.IH)
  next
    case False
    with Suc.prems show ?thesis by (auto simp: same_dispatcher_refl)
  qed
qed

lemma same_dispatcher_find:
  "same_dispatcher h h' \<Longrightarrow> find_bee_by_role r (fst h') = find_bee_by_role r (fst h)"
proof -
  have "map_option fst (find (\<lambda>(bee_id, bee, bee_role). bee_role = r) d)
          = map_option fst (find (\<lambda>(k, r'). r' = r) (map (\<lambda>(k, b, r). (k, r)) d))"
    for d :: "(string \<times> 'a worker \<times> AgentRole) list"
    by (induction d) auto
  then show "same_dispatcher h h' \<Longrightarrow> ?thesis"
    by (simp add: same_dispatcher_def find_bee_by_role_def)
qed
lemma run_handler_agent:
  assumes "get_agent key h = Some a" and "run_handler key message h = (res, h1)"
  shows "\<exists>a1. get_agent key h1 = Some a1 \<and> state a1 = THINKING
           \<and> messages_received a1 = messages_received a + 1
           \<and> messages_sent a1 = messages_sent a
           \<and> agent_id a1 = agent_id a \<and> on_message_send a1 = on_message_send a"
proof -
  from assms(1) obtain bee r where m: "map_of (worker_bees (fst h)) key = Some (bee, r)"
    and a: "a = agent bee"
    by (auto simp: get_agent_def)
  let ?self1 = "(agent bee)\<lparr>messages_received := messages_received (agent bee) + 1, state := THINKING\<rparr>"
  obtain res' c f w1 where pm: "process_message bee message ?self1 (snd h) = (res', (c, f), w1)"
    by (metis prod.exhaust)
  from assms(2) m pm have h1: "h1 = update_agent key
         (\<lambda>a. ?self1\<lparr>tasks_completed := c, tasks_failed := f\<rparr>) (fst h, w1)"
    by (simp add: run_handler_def Let_def)
  have "get_agent key (fst h, w1) = Some a"
    using assms(1) by (simp add: get_agent_def)
  then have "get_agent key h1 = Some (?self1\<lparr>tasks_completed := c, tasks_failed := f\<rparr>)"
    by (simp add: h1 get_agent_update_agent)
  then show ?thesis by (simp add: a)
qed

text \<open>
  C9 as stated, refuted: the handler of a registered worker raises.  The exception leaves
  \<open>receive_message\<close> before the last assignment, the worker stays in the state
  \<open>thinking\<close>, and that is its state when \<open>receive_message\<close> is next invoked.
\<close>

theorem receive_message_leaves_thinking:
  "(case receive_message (route_message 1) ''shopper_bee_001''
           (shopper_task (''m1'', ''t1'') ''queen_bee_001'' ''shopper_bee_001'' (PStr [S ''u1'']))
           (register_bee (example_bee ''shopper_bee_001'' SHOPPER_BEE raising_handler) example_queen, ()) of
      (Inl e, h1) \<Rightarrow> map_option state (get_agent ''shopper_bee_001'' h1) = Some THINKING
    | _ \<Rightarrow> False)"
  by (simp add: receive_message_def run_handler_def register_bee_def example_bee_def
      example_queen_def raising_handler_def HiveAgent_init_def update_agent_def get_agent_def
      Let_def)

text \<open>
  C9 (amended).  A worker is idle when it is constructed.  For every registered worker
  and every message for which \<open>receive_message\<close> completes (neither the handler nor the
  dispatch of the response raises), and when the dispatch of the response, if there is
  one, does not change the worker itself (no message comes back to it): the worker is
  idle afterwards, \<open>messages_received\<close> has increased by exactly one, and
  \<open>messages_sent\<close> by exactly one when the handler produced a response and by zero when
  it produced none.
\<close>

theorem receive_message_lifecycle:
  assumes "get_agent key h = Some a"
    and "receive_message route key message h = (Inr (), h')"
    and "run_handler key message h = (Inr response, h1)"
    and "\<forall>resp h2. response = Some resp \<and> on_message_send a = Some Route_message
            \<and> route (resp\<lparr>sender := agent_id a\<rparr>) h1 = (Inr (), h2)
          \<longrightarrow> get_agent key h2 = get_agent key h1"
  shows "state (HiveAgent_init aid r d) = IDLE
       \<and> (\<exists>a'. get_agent key h' = Some a' \<and> state a' = IDLE
             \<and> messages_received a' = messages_received a + 1
             \<and> messages_sent a' = messages_sent a + (case response of None \<Rightarrow> 0 | Some resp \<Rightarrow> 1))"
proof
  show "state (HiveAgent_init aid r d) = IDLE" by (simp add: HiveAgent_init_def)
next
  from run_handler_agent[OF assms(1) assms(3)] obtain a1 where
    a1: "get_agent key h1 = Some a1" "state a1 = THINKING"
        "messages_received a1 = messages_received a + 1" "messages_sent a1 = messages_sent a"
        "agent_id a1 = agent_id a" "on_message_send a1 = on_message_send a"
    by blast
  show "\<exists>a'. get_agent key h' = Some a' \<and> state a' = IDLE
             \<and> messages_received a' = messages_received a + 1
             \<and> messages_sent a' = messages_sent a + (case response of None \<Rightarrow> 0 | Some resp \<Rightarrow> 1)"
  proof (cases response)
    case None
    with assms(2,3) have "h' = update_agent key (\<lambda>a. a\<lparr>state := IDLE\<rparr>) h1"
      by (simp add: receive_message_def)
    with a1 None show ?thesis by (simp add: get_agent_update_agent)
  next
    case (Some resp)
    with assms(2,3) obtain u h2 where
      sm: "send_message route key resp h1 = (Inr u, h2)"
      and h': "h' = update_agent key (\<lambda>a. a\<lparr>state := IDLE\<rparr>) h2"
      by (auto simp: receive_message_def split: option.splits sum.splits prod.splits)
    have "\<exists>a2. get_agent key h2 = Some a2 \<and> messages_received a2 = messages_received a1
              \<and> messages_sent a2 = messages_sent a1 + 1"
    proof (cases "on_message_send a1")
      case None
      with sm a1(1) have "h2 = update_agent key (\<lambda>a. a\<lparr>messages_sent := messages_sent a + 1\<rparr>) h1"
        by (simp add: send_message_def Let_def)
      with a1(1) show ?thesis by (simp add: get_agent_update_agent)
    next
      case (Some cb)
      then have cb: "on_message_send a1 = Some Route_message" by (cases cb) simp
      from sm a1(1) cb obtain u' h3 where
        rt: "route (resp\<lparr>sender := agent_id a1\<rparr>) h1 = (Inr u', h3)"
        and h2: "h2 = update_agent key (\<lambda>a. a\<lparr>messages_sent := messages_sent a + 1\<rparr>) h3"
        by (auto simp: send_message_def Let_def split: option.splits sum.splits prod.splits)
      from rt have rt': "route (resp\<lparr>sender := agent_id a\<rparr>) h1 = (Inr (), h3)"
        by (simp add: a1(5))
      from assms(4) \<open>response = Some resp\<close> cb a1(6) rt'
      have "get_agent key h3 = get_agent key h1" by metis
      with a1(1) h2 show ?thesis by (simp add: get_agent_update_agent)
    qed
    then obtain a2 where a2: "get_agent key h2 = Some a2"
      "messages_received a2 = messages_received a1" "messages_sent a2 = messages_sent a1 + 1"
      by blast
    with h' a1 Some show ?thesis by (simp add: get_agent_update_agent)
  qed
qed
theorem receive_message_lifecycle_witness:
  "get_agent ''shopper_bee_001''
      (register_bee (example_bee ''shopper_bee_001'' SHOPPER_BEE (completing_handler ''analyze_user''))
         example_queen, ())
     = Some ((HiveAgent_init ''shopper_bee_001'' SHOPPER_BEE ''worker'')
               \<lparr>on_message_send := Some Route_message\<rparr>)
   \<and> (\<exists>h'. receive_message (route_message 1) ''shopper_bee_001''
              (shopper_task (''m1'', ''t1'') ''queen_bee_001'' ''shopper_bee_001'' (PStr [S ''u1'']))
              (register_bee (example_bee ''shopper_bee_001'' SHOPPER_BEE (completing_handler ''analyze_user''))
                 example_queen, ())
            = (Inr (), h')
          \<and> (\<exists>a'. get_agent ''shopper_bee_001'' h' = Some a' \<and> state a' = IDLE
                 \<and> messages_received a' = 1 \<and> messages_sent a' = 1))"
proof -
  let ?key = "''shopper_bee_001''"
  let ?h = "(register_bee (example_bee ''shopper_bee_001'' SHOPPER_BEE (completing_handler ''analyze_user''))
               example_queen, ())"
  let ?m = "shopper_task (''m1'', ''t1'') ''queen_bee_001'' ''shopper_bee_001'' (PStr [S ''u1''])"
  let ?a = "(HiveAgent_init ''shopper_bee_001'' SHOPPER_BEE ''worker'')\<lparr>on_message_send := Some Route_message\<rparr>"
  note defs = receive_message_def run_handler_def send_message_def register_bee_def example_bee_def
      example_queen_def completing_handler_def HiveAgent_init_def update_agent_def get_agent_def
      shopper_task_def task_type_def dict_get_def Let_def
  have ga: "get_agent ?key ?h = Some ?a"
    by (simp add: defs)
  obtain res h1 where rh: "run_handler ?key ?m ?h = (res, h1)"
    by (cases "run_handler ?key ?m ?h")
  from rh have res: "res = Inr (Some \<lparr>msg_id = ''r'', sender = [], receiver = ''queen_bee_001'',
                                      msg_content = PDict [(''success'', PBool True)],
                                      msg_type = RESULT, timestamp = ''t''\<rparr>)"
    and reg: "map_of (worker_bees (fst h1)) ''queen_bee_001'' = None"
    by (auto simp: defs)
  obtain h' where rm: "receive_message (route_message 1) ?key ?m ?h = (Inr (), h')"
    by (simp add: defs)
  have dispatch: "\<forall>resp h2.
       Some \<lparr>msg_id = ''r'', sender = [], receiver = ''queen_bee_001'',
             msg_content = PDict [(''success'', PBool True)],
             msg_type = RESULT, timestamp = ''t''\<rparr> = Some resp
         \<and> on_message_send ?a = Some Route_message
         \<and> route_message 1 (resp\<lparr>sender := agent_id ?a\<rparr>) h1 = (Inr (), h2)
       \<longrightarrow> get_agent ?key h2 = get_agent ?key h1"
    using reg by auto
  from receive_message_lifecycle[OF ga rm rh[unfolded res] dispatch]
  have "\<exists>a'. get_agent ?key h' = Some a' \<and> state a' = IDLE
             \<and> messages_received a' = messages_received ?a + 1
             \<and> messages_sent a' = messages_sent ?a + 1"
    by simp
  then have "\<exists>a'. get_agent ?key h' = Some a' \<and> state a' = IDLE
             \<and> messages_received a' = 1 \<and> messages_sent a' = 1"
    by (simp add: HiveAgent_init_def)
  with ga rm show ?thesis by blast
qed

lemma map_of_dict_set:
  "map_of (dict_set d k v) k' = (if k' = k then Some v else map_of d k')"
  by (induction d) auto

lemma same_dispatcher_full_campaign_workflow:
  assumes "full_campaign_workflow depth stamp1 stamp2 data h = (res, h')"
  shows "same_dispatcher h h'"
proof (cases "truthy (find_bee_by_role SHOPPER_BEE (fst h))")
  case False
  with assms show ?thesis
    by (simp add: full_campaign_workflow_def Let_def same_dispatcher_refl)
next
  case True
  let ?m1 = "shopper_task stamp1 (agent_id (queen_agent (fst h)))
               (the (find_bee_by_role SHOPPER_BEE (fst h))) (dict_get data ''user_id'' PNone)"
  obtain r1 h1 where r1: "route_message depth ?m1 h = (r1, h1)"
    by (cases "route_message depth ?m1 h")
  have s1: "same_dispatcher h h1" using r1 by (rule same_dispatcher_route_message)
  show ?thesis
  proof (cases "h' = h1")
    case True
    with s1 show ?thesis by simp
  next
    case False
    let ?m2 = "ad_task stamp2 (agent_id (queen_agent (fst h1)))
                 (the (find_bee_by_role AD_BEE (fst h1))) (dict_get data ''products'' (PList []))"
    obtain r2 h2 where r2: "route_message depth ?m2 h1 = (r2, h2)"
      by (cases "route_message depth ?m2 h1")
    from assms True r1 r2 False have "h' = h2"
      by (auto simp: full_campaign_workflow_def Let_def
          split: option.splits sum.splits if_splits)
    moreover have "same_dispatcher h1 h2" using r2 by (rule same_dispatcher_route_message)
    ultimately show ?thesis using s1 same_dispatcher_trans by blast
  qed
qed

lemma same_dispatcher_run_workflow:
  "run_workflow depth stamp1 stamp2 workflow_type data h = (res, h') \<Longrightarrow> same_dispatcher h h'"
  by (auto simp: run_workflow_def same_dispatcher_refl
      dest: same_dispatcher_full_campaign_workflow split: if_splits)

lemma execute_workflow_shopper_missing:
  assumes "\<not> truthy (find_bee_by_role SHOPPER_BEE (fst h))"
  shows "execute_workflow now_id start_time end_time depth stamp1 stamp2 ''full_ad_campaign'' data h
       = ([(''success'', PBool False), (''error'', PStr [S ''Shopper bee not found'']),
                (''workflow_id'', PStr [S ''workflow_'', T now_id]),
                (''execution_time'', PFloat (total_seconds (end_time - start_time)))],
               ((fst h)\<lparr>workflows_failed := workflows_failed (fst h) + 1\<rparr>, snd h))"
  using assms
  by (cases h) (simp add: execute_workflow_def run_workflow_def full_campaign_workflow_def
      failed_result_def dict_get_def Let_def)

lemma execute_workflow_ad_missing:
  assumes "find_bee_by_role SHOPPER_BEE (fst h) = Some sid" and "sid \<noteq> []"
    and "route_message depth
           (shopper_task stamp1 (agent_id (queen_agent (fst h))) sid (dict_get data ''user_id'' PNone)) h
         = (Inr (), h1)"
    and "get_agent sid h1 = Some shopper_bee" and "tasks_completed shopper_bee \<noteq> 0"
    and "\<not> truthy (find_bee_by_role AD_BEE (fst h))"
  shows "execute_workflow now_id start_time end_time depth stamp1 stamp2 ''full_ad_campaign'' data h
       = ([(''success'', PBool False), (''error'', PStr [S ''Ad bee not found'']),
                (''workflow_id'', PStr [S ''workflow_'', T now_id]),
                (''execution_time'', PFloat (total_seconds (end_time - start_time)))],
               ((fst h1)\<lparr>workflows_failed := workflows_failed (fst h1) + 1\<rparr>, snd h1))"
proof -
  have "same_dispatcher h h1" using assms(3) by (rule same_dispatcher_route_message)
  then have "find_bee_by_role AD_BEE (fst h1) = find_bee_by_role AD_BEE (fst h)"
    by (rule same_dispatcher_find)
  with assms have "full_campaign_workflow depth stamp1 stamp2 data h
                     = (Inr (failed_result ''Ad bee not found''), h1)"
    by (simp add: full_campaign_workflow_def Let_def)
  then show ?thesis
    by (cases h1) (simp add: execute_workflow_def run_workflow_def
        failed_result_def dict_get_def Let_def)
qed

lemma execute_workflow_stamps:
  shows "map_of (fst (execute_workflow now_id start_time end_time depth stamp1 stamp2 workflow_type data h))
           ''workflow_id'' = Some (PStr [S ''workflow_'', T now_id])"
    and "(workflows_completed
            (fst (snd (execute_workflow now_id start_time end_time depth stamp1 stamp2 workflow_type data h)))
            = workflows_completed (fst h) + 1
          \<and> workflows_failed
            (fst (snd (execute_workflow now_id start_time end_time depth stamp1 stamp2 workflow_type data h)))
            = workflows_failed (fst h))
         \<or> (workflows_completed
            (fst (snd (execute_workflow now_id start_time end_time depth stamp1 stamp2 workflow_type data h)))
            = workflows_completed (fst h)
          \<and> workflows_failed
            (fst (snd (execute_workflow now_id start_time end_time depth stamp1 stamp2 workflow_type data h)))
            = workflows_failed (fst h) + 1)"
    and "run_workflow depth stamp1 stamp2 workflow_type data h = (Inr r0, h1)
         \<Longrightarrow> map_of (fst (execute_workflow now_id start_time end_time depth stamp1 stamp2 workflow_type data h))
               ''execution_time'' = Some (PFloat (total_seconds (end_time - start_time)))"
proof -
  obtain res q1 w1 where
    rw: "run_workflow depth stamp1 stamp2 workflow_type data h = (res, (q1, w1))"
    by (metis prod.exhaust)
  from same_dispatcher_run_workflow[OF rw]
  have cnt: "workflows_completed q1 = workflows_completed (fst h)"
            "workflows_failed q1 = workflows_failed (fst h)"
    by (simp_all add: same_dispatcher_def)
  show "map_of (fst (execute_workflow now_id start_time end_time depth stamp1 stamp2 workflow_type data h))
           ''workflow_id'' = Some (PStr [S ''workflow_'', T now_id])"
    using rw by (cases res) (simp_all add: execute_workflow_def Let_def map_of_dict_set)
  show "(workflows_completed
            (fst (snd (execute_workflow now_id start_time end_time depth stamp1 stamp2 workflow_type data h)))
            = workflows_completed (fst h) + 1
          \<and> workflows_failed
            (fst (snd (execute_workflow now_id start_time end_time depth stamp1 stamp2 workflow_type data h)))
            = workflows_failed (fst h))
         \<or> (workflows_completed
            (fst (snd (execute_workflow now_id start_time end_time depth stamp1 stamp2 workflow_type data h)))
            = workflows_completed (fst h)
          \<and> workflows_failed
            (fst (snd (execute_workflow now_id start_time end_time depth stamp1 stamp2 workflow_type data h)))
            = workflows_failed (fst h) + 1)"
  proof (cases res)
    case (Inl e)
    with rw cnt show ?thesis by (simp add: execute_workflow_def Let_def)
  next
    case (Inr b)
    show ?thesis
    proof (cases "py_bool (dict_get b ''success'' PNone)")
      case True
      with rw cnt Inr show ?thesis by (simp add: execute_workflow_def Let_def)
    next
      case False
      with rw cnt Inr show ?thesis by (simp add: execute_workflow_def Let_def)
    qed
  qed
  show "map_of (fst (execute_workflow now_id start_time end_time depth stamp1 stamp2 workflow_type data h))
               ''execution_time'' = Some (PFloat (total_seconds (end_time - start_time)))"
    if "run_workflow depth stamp1 stamp2 workflow_type data h = (Inr r0, h1)"
    using that by (cases h1) (simp add: execute_workflow_def Let_def map_of_dict_set)
qed

lemma execute_workflow_exception_result:
  "fst (execute_workflow 0 1000000 3000000 2 (''m1'', ''t1'') (''m2'', ''t2'') ''full_ad_campaign''
        [(''user_id'', PStr [S ''u1''])]
        (register_bee (example_bee ''shopper_bee_001'' SHOPPER_BEE raising_handler) example_queen, ()))
   = [(''success'', PBool False), (''error'', PStr [S ''division by zero'']),
      (''workflow_id'', PStr [S ''workflow_'', T 0])]"
  by (simp add: execute_workflow_def run_workflow_def full_campaign_workflow_def
      find_bee_by_role_def receive_message_def run_handler_def register_bee_def example_bee_def
      example_queen_def raising_handler_def HiveAgent_init_def update_agent_def get_agent_def
      shopper_task_def dict_get_def eval_nat_numeral Let_def)

lemma execute_workflow_recursion_error:
  "fst (execute_workflow 0 1000000 3000000 0 (''m1'', ''t1'') (''m2'', ''t2'') ''full_ad_campaign''
        [(''user_id'', PStr [S ''u1''])]
        (register_bee (example_bee ''shopper_bee_001'' SHOPPER_BEE (completing_handler ''analyze_user''))
           example_queen, ()))
   = [(''success'', PBool False), (''error'', PStr [S ''maximum recursion depth exceeded'']),
      (''workflow_id'', PStr [S ''workflow_'', T 0])]"
  by (simp add: execute_workflow_def run_workflow_def full_campaign_workflow_def
      find_bee_by_role_def register_bee_def example_bee_def example_queen_def HiveAgent_init_def
      shopper_task_def dict_get_def Let_def)

text \<open>
  C8 as stated, refuted: only a shopper is registered, so the ad role has no worker, and
  the shopper's handler completes no task.  The workflow fails at the check of the
  shopper's counter, with the error \<open>Shopper analysis failed\<close>, not with a
  \<open>not found\<close> error.
\<close>

theorem execute_workflow_shopper_step_failed:
  "find_bee_by_role AD_BEE
      (register_bee (example_bee ''shopper_bee_001'' SHOPPER_BEE idle_handler) example_queen) = None
   \<and> map_of
       (fst (execute_workflow 0 1000000 3000000 2 (''m1'', ''t1'') (''m2'', ''t2'') ''full_ad_campaign''
          [(''user_id'', PStr [S ''u1''])]
          (register_bee (example_bee ''shopper_bee_001'' SHOPPER_BEE idle_handler) example_queen, ())))
       ''error''
     = Some (PStr [S ''Shopper analysis failed''])"
  by (simp add: execute_workflow_def run_workflow_def full_campaign_workflow_def
      find_bee_by_role_def receive_message_def run_handler_def register_bee_def example_bee_def
      example_queen_def idle_handler_def HiveAgent_init_def update_agent_def get_agent_def
      shopper_task_def dict_get_def failed_result_def eval_nat_numeral Let_def)

text \<open>
  C8 (amended).  For \<open>execute_workflow\<close> on \<open>full_ad_campaign\<close>: when no (non-empty)
  shopper identifier is registered, the result is \<open>success = False\<close> with the error
  \<open>Shopper bee not found\<close>, and the hive is unchanged but for the failure counter (no
  message was routed); when the shopper step has run, returned and left the shopper
  with a non-zero \<open>tasks_completed\<close>, and no ad worker is registered, the result is
  \<open>success = False\<close> with the error \<open>Ad bee not found\<close>, and the hive is the one the
  shopper step left, but for the failure counter.  Every invocation, of any workflow
  type, returns a result that carries the workflow identifier, and increments exactly
  one of the two workflow counters by one; when the workflow body returned a result
  (raised no exception), the result also carries the elapsed execution time.
\<close>

theorem execute_workflow_outcome:
  "(\<not> truthy (find_bee_by_role SHOPPER_BEE (fst h))
      \<longrightarrow> execute_workflow now_id start_time end_time depth stamp1 stamp2 ''full_ad_campaign'' data h
          = ([(''success'', PBool False), (''error'', PStr [S ''Shopper bee not found'']),
              (''workflow_id'', PStr [S ''workflow_'', T now_id]),
              (''execution_time'', PFloat (total_seconds (end_time - start_time)))],
             ((fst h)\<lparr>workflows_failed := workflows_failed (fst h) + 1\<rparr>, snd h)))
   \<and> (\<forall>sid h1 shopper_bee.
        find_bee_by_role SHOPPER_BEE (fst h) = Some sid \<and> sid \<noteq> []
        \<and> route_message depth
             (shopper_task stamp1 (agent_id (queen_agent (fst h))) sid (dict_get data ''user_id'' PNone)) h
           = (Inr (), h1)
        \<and> get_agent sid h1 = Some shopper_bee \<and> tasks_completed shopper_bee \<noteq> 0
        \<and> \<not> truthy (find_bee_by_role AD_BEE (fst h))
        \<longrightarrow> execute_workflow now_id start_time end_time depth stamp1 stamp2 ''full_ad_campaign'' data h
            = ([(''success'', PBool False), (''error'', PStr [S ''Ad bee not found'']),
                (''workflow_id'', PStr [S ''workflow_'', T now_id]),
                (''execution_time'', PFloat (total_seconds (end_time - start_time)))],
               ((fst h1)\<lparr>workflows_failed := workflows_failed (fst h1) + 1\<rparr>, snd h1)))
   \<and> map_of (fst (execute_workflow now_id start_time end_time depth stamp1 stamp2 workflow_type data h))
        ''workflow_id'' = Some (PStr [S ''workflow_'', T now_id])
   \<and> ((workflows_completed
          (fst (snd (execute_workflow now_id start_time end_time depth stamp1 stamp2 workflow_type data h)))
          = workflows_completed (fst h) + 1
        \<and> workflows_failed
          (fst (snd (execute_workflow now_id start_time end_time depth stamp1 stamp2 workflow_type data h)))
          = workflows_failed (fst h))
       \<or> (workflows_completed
          (fst (snd (execute_workflow now_id start_time end_time depth stamp1 stamp2 workflow_type data h)))
          = workflows_completed (fst h)
        \<and> workflows_failed
          (fst (snd (execute_workflow now_id start_time end_time depth stamp1 stamp2 workflow_type data h)))
          = workflows_failed (fst h) + 1))
   \<and> (\<forall>r0 h1.
        run_workflow depth stamp1 stamp2 workflow_type data h = (Inr r0, h1)
        \<longrightarrow> map_of (fst (execute_workflow now_id start_time end_time depth stamp1 stamp2 workflow_type data h))
              ''execution_time'' = Some (PFloat (total_seconds (end_time - start_time))))"
proof (intro conjI allI impI)
  assume "\<not> truthy (find_bee_by_role SHOPPER_BEE (fst h))"
  then show "execute_workflow now_id start_time end_time depth stamp1 stamp2 ''full_ad_campaign'' data h
          = ([(''success'', PBool False), (''error'', PStr [S ''Shopper bee not found'']),
              (''workflow_id'', PStr [S ''workflow_'', T now_id]),
              (''execution_time'', PFloat (total_seconds (end_time - start_time)))],
             ((fst h)\<lparr>workflows_failed := workflows_failed (fst h) + 1\<rparr>, snd h))"
    by (rule execute_workflow_shopper_missing)
next
  fix sid h1 shopper_bee
  assume "find_bee_by_role SHOPPER_BEE (fst h) = Some sid \<and> sid \<noteq> []
        \<and> route_message depth
             (shopper_task stamp1 (agent_id (queen_agent (fst h))) sid (dict_get data ''user_id'' PNone)) h
           = (Inr (), h1)
        \<and> get_agent sid h1 = Some shopper_bee \<and> tasks_completed shopper_bee \<noteq> 0
        \<and> \<not> truthy (find_bee_by_role AD_BEE (fst h))"
  then show "execute_workflow now_id start_time end_time depth stamp1 stamp2 ''full_ad_campaign'' data h
            = ([(''success'', PBool False), (''error'', PStr [S ''Ad bee not found'']),
                (''workflow_id'', PStr [S ''workflow_'', T now_id]),
                (''execution_time'', PFloat (total_seconds (end_time - start_time)))],
               ((fst h1)\<lparr>workflows_failed := workflows_failed (fst h1) + 1\<rparr>, snd h1))"
    by (elim conjE) (rule execute_workflow_ad_missing)
next
  show "map_of (fst (execute_workflow now_id start_time end_time depth stamp1 stamp2 workflow_type data h))
        ''workflow_id'' = Some (PStr [S ''workflow_'', T now_id])"
    by (rule execute_workflow_stamps(1))
next
  show "(workflows_completed
          (fst (snd (execute_workflow now_id start_time end_time depth stamp1 stamp2 workflow_type data h)))
          = workflows_completed (fst h) + 1
        \<and> workflows_failed
          (fst (snd (execute_workflow now_id start_time end_time depth stamp1 stamp2 workflow_type data h)))
          = workflows_failed (fst h))
       \<or> (workflows_completed
          (fst (snd (execute_workflow now_id start_time end_time depth stamp1 stamp2 workflow_type data h)))
          = workflows_completed (fst h)
        \<and> workflows_failed
          (fst (snd (execute_workflow now_id start_time end_time depth stamp1 stamp2 workflow_type data h)))
          = workflows_failed (fst h) + 1)"
    by (rule execute_workflow_stamps(2))
next
  fix r0 h1
  assume "run_workflow depth stamp1 stamp2 workflow_type data h = (Inr r0, h1)"
  then show "map_of (fst (execute_workflow now_id start_time end_time depth stamp1 stamp2 workflow_type data h))
              ''execution_time'' = Some (PFloat (total_seconds (end_time - start_time)))"
    by (rule execute_workflow_stamps(3))
qed

theorem execute_workflow_outcome_witness:
  "execute_workflow 0 1000000 3000000 2 (''m1'', ''t1'') (''m2'', ''t2'') ''full_ad_campaign''
      [(''user_id'', PStr [S ''u1''])]
      (register_bee (example_bee ''ad_bee_001'' AD_BEE (completing_handler ''create_campaign''))
         example_queen, ())
     = ([(''success'', PBool False), (''error'', PStr [S ''Shopper bee not found'']),
         (''workflow_id'', PStr [S ''workflow_'', T 0]),
         (''execution_time'', PFloat (total_seconds (3000000 - 1000000)))],
        ((register_bee (example_bee ''ad_bee_001'' AD_BEE (completing_handler ''create_campaign''))
            example_queen)\<lparr>workflows_failed := 1\<rparr>, ()))
   \<and> fst (execute_workflow 0 1000000 3000000 2 (''m1'', ''t1'') (''m2'', ''t2'') ''full_ad_campaign''
          [(''user_id'', PStr [S ''u1''])]
          (register_bee (example_bee ''shopper_bee_001'' SHOPPER_BEE (completing_handler ''analyze_user''))
             example_queen, ()))
     = [(''success'', PBool False), (''error'', PStr [S ''Ad bee not found'']),
        (''workflow_id'', PStr [S ''workflow_'', T 0]),
        (''execution_time'', PFloat (total_seconds (3000000 - 1000000)))]
   \<and> (\<exists>r0 h1. run_workflow 2 (''m1'', ''t1'') (''m2'', ''t2'') ''full_ad_campaign''
          [(''user_id'', PStr [S ''u1''])]
          (register_bee (example_bee ''shopper_bee_001'' SHOPPER_BEE (completing_handler ''analyze_user''))
             example_queen, ()) = (Inr r0, h1))
   \<and> map_of
        (fst (execute_workflow 0 1000000 3000000 2 (''m1'', ''t1'') (''m2'', ''t2'') ''full_ad_campaign''
          [(''user_id'', PStr [S ''u1''])]
          (register_bee (example_bee ''shopper_bee_001'' SHOPPER_BEE (completing_handler ''analyze_user''))
             example_queen, ())))
        ''execution_time'' = Some (PFloat (total_seconds (3000000 - 1000000)))"
proof -
  let ?A = "(register_bee (example_bee ''ad_bee_001'' AD_BEE (completing_handler ''create_campaign''))
               example_queen, ())"
  let ?B = "(register_bee (example_bee ''shopper_bee_001'' SHOPPER_BEE (completing_handler ''analyze_user''))
               example_queen, ())"
  let ?data = "[(''user_id'', PStr [S ''u1''])]"
  note defs = find_bee_by_role_def receive_message_def run_handler_def send_message_def
      register_bee_def example_bee_def example_queen_def completing_handler_def HiveAgent_init_def
      update_agent_def get_agent_def shopper_task_def task_type_def dict_get_def
      eval_nat_numeral Let_def
  note inst = execute_workflow_outcome[where now_id = 0 and start_time = 1000000
      and end_time = 3000000 and depth = 2 and ?stamp1.0 = "(''m1'', ''t1'')"
      and ?stamp2.0 = "(''m2'', ''t2'')" and data = ?data and workflow_type = "''full_ad_campaign''"]
  have a1: "\<not> truthy (find_bee_by_role SHOPPER_BEE (fst ?A))"
    by (simp add: defs)
  from inst[where h = ?A, THEN conjunct1, rule_format, OF a1]
  have c1: "execute_workflow 0 1000000 3000000 2 (''m1'', ''t1'') (''m2'', ''t2'') ''full_ad_campaign''
              ?data ?A
            = ([(''success'', PBool False), (''error'', PStr [S ''Shopper bee not found'']),
                (''workflow_id'', PStr [S ''workflow_'', T 0]),
                (''execution_time'', PFloat (total_seconds (3000000 - 1000000)))],
               ((register_bee (example_bee ''ad_bee_001'' AD_BEE (completing_handler ''create_campaign''))
                   example_queen)\<lparr>workflows_failed := 1\<rparr>, ()))"
    by (simp add: register_bee_def example_queen_def)
  have "\<exists>h1 sb. route_message 2
             (shopper_task (''m1'', ''t1'') (agent_id (queen_agent (fst ?B))) ''shopper_bee_001''
                (dict_get ?data ''user_id'' PNone)) ?B = (Inr (), h1)
          \<and> get_agent ''shopper_bee_001'' h1 = Some sb \<and> tasks_completed sb = 1"
    by (simp add: defs)
  then obtain h1 sb where b1: "route_message 2
             (shopper_task (''m1'', ''t1'') (agent_id (queen_agent (fst ?B))) ''shopper_bee_001''
                (dict_get ?data ''user_id'' PNone)) ?B = (Inr (), h1)"
    and b2: "get_agent ''shopper_bee_001'' h1 = Some sb" and b3: "tasks_completed sb = 1"
    by blast
  have b0: "find_bee_by_role SHOPPER_BEE (fst ?B) = Some ''shopper_bee_001''"
    and b4: "\<not> truthy (find_bee_by_role AD_BEE (fst ?B))"
    by (simp_all add: defs)
  have hyp2: "find_bee_by_role SHOPPER_BEE (fst ?B) = Some ''shopper_bee_001''
        \<and> ''shopper_bee_001'' \<noteq> []
        \<and> route_message 2
             (shopper_task (''m1'', ''t1'') (agent_id (queen_agent (fst ?B))) ''shopper_bee_001''
                (dict_get ?data ''user_id'' PNone)) ?B = (Inr (), h1)
        \<and> get_agent ''shopper_bee_001'' h1 = Some sb \<and> tasks_completed sb \<noteq> 0
        \<and> \<not> truthy (find_bee_by_role AD_BEE (fst ?B))"
    using b0 b1 b2 b3 b4 by simp
  from inst[where h = ?B, THEN conjunct2, THEN conjunct1, rule_format, OF hyp2]
  have c2: "execute_workflow 0 1000000 3000000 2 (''m1'', ''t1'') (''m2'', ''t2'') ''full_ad_campaign''
              ?data ?B
            = ([(''success'', PBool False), (''error'', PStr [S ''Ad bee not found'']),
                (''workflow_id'', PStr [S ''workflow_'', T 0]),
                (''execution_time'', PFloat (total_seconds (3000000 - 1000000)))],
               ((fst h1)\<lparr>workflows_failed := workflows_failed (fst h1) + 1\<rparr>, snd h1))"
    .
  have rw: "run_workflow 2 (''m1'', ''t1'') (''m2'', ''t2'') ''full_ad_campaign'' ?data ?B
              = (Inr (failed_result ''Ad bee not found''), h1)"
    using b0 b1 b2 b3 b4 same_dispatcher_find[OF same_dispatcher_route_message[OF b1], of AD_BEE]
    by (simp add: run_workflow_def full_campaign_workflow_def Let_def)
  from inst[where h = ?B, THEN conjunct2, THEN conjunct2, THEN conjunct2, THEN conjunct2,
      rule_format, OF rw]
  have c4: "map_of
        (fst (execute_workflow 0 1000000 3000000 2 (''m1'', ''t1'') (''m2'', ''t2'') ''full_ad_campaign''
           ?data ?B))
        ''execution_time'' = Some (PFloat (total_seconds (3000000 - 1000000)))"
    .
  have c2': "fst (execute_workflow 0 1000000 3000000 2 (''m1'', ''t1'') (''m2'', ''t2'') ''full_ad_campaign''
          ?data ?B)
     = [(''success'', PBool False), (''error'', PStr [S ''Ad bee not found'']),
        (''workflow_id'', PStr [S ''workflow_'', T 0]),
        (''execution_time'', PFloat (total_seconds (3000000 - 1000000)))]"
    by (simp add: c2)
  from c1 c2' rw c4 show ?thesis by blast
qed
section \<open>Exceptions of the decoder other than JSONDecodeError\<close>

text \<open>
  An exception of \<open>json.loads\<close> that is not a \<open>JSONDecodeError\<close> is not caught: it
  leaves the parsing step and \<open>generate_json\<close>.
\<close>

lemma parse_json_content_propagates:
  "loads (json_text raw) = Inl (ValueError m) \<Longrightarrow> parse_json_content loads raw = Inl (ValueError m)"
  "loads (json_text raw) = Inl (RecursionError m) \<Longrightarrow> parse_json_content loads raw = Inl (RecursionError m)"
  by (simp_all add: parse_json_content_def)

lemma generate_json_propagates:
  assumes "generate now now' now'' (json_prompt dumps prompt schema) system_prompt None (self, w)
             = (Inr r, sw1)"
    and "success r" and "loads (json_text (content r)) = Inl (ValueError m)"
  shows "generate_json loads dumps now now' now'' prompt schema system_prompt (self, w)
           = (Inl (ValueError m), sw1)"
  using assms by (simp add: generate_json_def parse_json_content_def)

end
